theory Spec2Isabelle
  imports Main "HOL-Library.Sublist"
begin

section \<open>JavaScript values the engine relies on\<close>

text \<open>
  A thrown value. Everything the engine and its collaborators throw is an \<open>Error\<close>
  object (or a subclass such as puppeteer's \<open>TimeoutError\<close>): a name and a message.
\<close>

datatype thrown = Thrown (err_name: string) (err_message: string)

text \<open>\<^verbatim>\<open>new Error(msg)\<close>\<close>

definition Error :: "string \<Rightarrow> thrown" where
  "Error msg = Thrown ''Error'' msg"

text \<open>\<^verbatim>\<open>Error.prototype.toString\<close>: the name, the message, or both joined by a colon.\<close>

definition toString :: "thrown \<Rightarrow> string" where
  "toString e =
     (if err_name e = [] then err_message e
      else if err_message e = [] then err_name e
      else err_name e @ '': '' @ err_message e)"

text \<open>
  A call of an \<open>async\<close> function yields a Promise object. \<open>await\<close> reads the value it
  settles to. Used without \<open>await\<close>, the Promise is an ordinary object: it is truthy
  (\<open>ToBoolean\<close> of any object is \<open>true\<close>) and string concatenation renders it as
  \<^verbatim>\<open>[object Promise]\<close>.
\<close>

datatype 'a promise = Promise 'a

fun await :: "'a promise \<Rightarrow> 'a" where
  "await (Promise x) = x"

definition ToBoolean :: "'a promise \<Rightarrow> bool" where
  "ToBoolean p = True"

definition ToString :: "'a promise \<Rightarrow> string" where
  "ToString p = ''[object Promise]''"

definition newline :: string where
  "newline = [CHR 0x0A]"

text \<open>
  \<^verbatim>\<open>String.prototype.trim\<close> on 8-bit code units: tab, line feed, vertical tab, form
  feed, carriage return, space and no-break space are white space.
\<close>

definition whitespace :: "char \<Rightarrow> bool" where
  "whitespace c = (c \<in> set [CHR 0x09, CHR 0x0A, CHR 0x0B, CHR 0x0C, CHR 0x0D, CHR 0x20, CHR 0xA0])"

definition trim :: "string \<Rightarrow> string" where
  "trim s = rev (dropWhile whitespace (rev (dropWhile whitespace s)))"

text \<open>\<^verbatim>\<open>Array.prototype.join\<close> on an array of strings.\<close>

fun join :: "string \<Rightarrow> string list \<Rightarrow> string" where
  "join sep [] = []"
| "join sep [x] = x"
| "join sep (x # y # ys) = x @ sep @ join sep (y # ys)"

section \<open>Data model (\<^verbatim>\<open>src/onboard.ts\<close>)\<close>

datatype BusinessType = company | non_profit | individual

record Address =
  line1 :: string
  line2 :: "string option"
  city :: string
  state :: "string option"
  zip :: string

record OnboardValues =
  account_number :: string
  address :: Address
  business_type :: BusinessType
  company_name :: string
  company_phone :: string
  company_tax_id :: string
  company_url :: string
  date_of_birth :: string
  country :: string
  email :: string
  first_name :: string
  id_number :: string
  last_name :: string
  phone :: string
  routing_number :: "string option"
  ssn_last_4 :: string
  title :: string

text \<open>
  \<^verbatim>\<open>Partial<OnboardValues>\<close>: every property may be absent (\<open>None\<close>). The spread
  \<^verbatim>\<open>{...defaults, ...given}\<close> copies the properties that are present.
\<close>

record PartialOnboardValues =
  given_account_number :: "string option"
  given_address :: "Address option"
  given_business_type :: "BusinessType option"
  given_company_name :: "string option"
  given_company_phone :: "string option"
  given_company_tax_id :: "string option"
  given_company_url :: "string option"
  given_date_of_birth :: "string option"
  given_country :: "string option"
  given_email :: "string option"
  given_first_name :: "string option"
  given_id_number :: "string option"
  given_last_name :: "string option"
  given_phone :: "string option"
  given_routing_number :: "string option"
  given_ssn_last_4 :: "string option"
  given_title :: "string option"

text \<open>
  \<^verbatim>\<open>debug?: boolean | object\<close>. The object payload is kept abstract (\<open>'o\<close>).
  The \<^verbatim>\<open>values\<close> property is the field \<open>vals\<close> (\<open>values\<close> is reserved in Isabelle).
\<close>

datatype 'o debug = DebugUndefined | DebugBool bool | DebugObject 'o

fun truthy :: "'o debug \<Rightarrow> bool" where
  "truthy DebugUndefined = False"
| "truthy (DebugBool b) = b"
| "truthy (DebugObject obj) = True"

record ('v, 'o) OnboardOptions =
  headless :: "bool option"
  silent :: "bool option"
  vals :: "'v option"
  url :: string
  debug :: "'o debug"

text \<open>
  The values faker draws in \<^verbatim>\<open>getDefaultOnboardValues\<close>; they are random, so they are
  inputs of the model.
\<close>

record faker =
  name_firstName :: string
  name_lastName :: string
  company_name_draw :: string
  internet_url :: string
  internet_exampleEmail :: "string \<Rightarrow> string \<Rightarrow> string"
  name_jobTitle :: string

section \<open>Default values and their merge with the caller's values\<close>

text \<open>
  \<^verbatim>\<open>getDefaultOnboardValues(country = "US")\<close>: an absent argument (\<open>None\<close>) takes the
  default \<^verbatim>\<open>"US"\<close>. The \<^verbatim>\<open>switch\<close> has the single case \<^verbatim>\<open>"DK"\<close>.
\<close>

definition getDefaultOnboardValues :: "faker \<Rightarrow> string option \<Rightarrow> OnboardValues" where
  "getDefaultOnboardValues fk country_arg =
     (let country' = (case country_arg of None \<Rightarrow> ''US'' | Some c \<Rightarrow> c);
          firstName = name_firstName fk;
          lastName = name_lastName fk;
          defaultValues = \<lparr>
            account_number = ''000123456789'',
            address = \<lparr>
              line1 = ''address_full_match'',
              line2 = Some [],
              city = ''Beverly Hills'',
              state = Some ''CA'',
              zip = ''90210'' \<rparr>,
            business_type = company,
            company_name = company_name_draw fk,
            company_phone = ''0000000000'',
            company_tax_id = ''000000000'',
            company_url = internet_url fk,
            date_of_birth = ''01011901'',
            country = ''US'',
            email = internet_exampleEmail fk firstName lastName,
            first_name = firstName,
            id_number = ''000000000'',
            last_name = lastName,
            phone = ''0000000000'',
            routing_number = Some ''110000000'',
            ssn_last_4 = ''0000'',
            title = name_jobTitle fk \<rparr>
      in if country' = ''DK''
         then defaultValues \<lparr>
                phone := ''00000000'',
                company_phone := ''00000000'',
                address := (address defaultValues) \<lparr> zip := ''8000'', city := ''Aarhus'', state := None \<rparr>,
                account_number := ''DK5000400440116243'',
                routing_number := None \<rparr>
         else defaultValues)"

text \<open>
  \<^verbatim>\<open>{ ...getDefaultOnboardValues(options.values?.country), ...options.values }\<close>:
  a property present in the caller's values replaces the default, whole (the address is
  not merged field by field).
\<close>

definition pick :: "'a \<Rightarrow> 'a option \<Rightarrow> 'a" where
  "pick d g = (case g of None \<Rightarrow> d | Some v \<Rightarrow> v)"

definition spread :: "OnboardValues \<Rightarrow> PartialOnboardValues \<Rightarrow> OnboardValues" where
  "spread d g = \<lparr>
     account_number = pick (account_number d) (given_account_number g),
     address = pick (address d) (given_address g),
     business_type = pick (business_type d) (given_business_type g),
     company_name = pick (company_name d) (given_company_name g),
     company_phone = pick (company_phone d) (given_company_phone g),
     company_tax_id = pick (company_tax_id d) (given_company_tax_id g),
     company_url = pick (company_url d) (given_company_url g),
     date_of_birth = pick (date_of_birth d) (given_date_of_birth g),
     country = pick (country d) (given_country g),
     email = pick (email d) (given_email g),
     first_name = pick (first_name d) (given_first_name g),
     id_number = pick (id_number d) (given_id_number g),
     last_name = pick (last_name d) (given_last_name g),
     phone = pick (phone d) (given_phone g),
     routing_number = (case given_routing_number g of None \<Rightarrow> routing_number d | Some v \<Rightarrow> Some v),
     ssn_last_4 = pick (ssn_last_4 d) (given_ssn_last_4 g),
     title = pick (title d) (given_title g) \<rparr>"

definition mergedValues :: "faker \<Rightarrow> PartialOnboardValues option \<Rightarrow> OnboardValues" where
  "mergedValues fk given =
     (case given of
        None \<Rightarrow> getDefaultOnboardValues fk None
      | Some g \<Rightarrow> spread (getDefaultOnboardValues fk (given_country g)) g)"

section \<open>The page session, its trace and the computations on it\<close>

text \<open>
  The browser session is the page state \<open>'p\<close> (kept abstract: the target site decides
  how it evolves) together with the trace of the calls made on the outside world, in the
  order they were made. Task functions log their own calls in a trace of their own event
  type; the engine files them under \<open>InTask\<close>.
\<close>

record ('p, 'e) world =
  page :: 'p
  trace :: "'e list"

text \<open>
  An asynchronous computation that is awaited: it either throws (\<open>Inl\<close>) or returns
  (\<open>Inr\<close>), and leaves a new world either way.
\<close>

type_synonym ('p, 'e, 'a) io = "('p, 'e) world \<Rightarrow> (thrown + 'a) \<times> ('p, 'e) world"

text \<open>A primitive of the page: it acts on the page state alone.\<close>

type_synonym ('p, 'a) prim = "'p \<Rightarrow> (thrown + 'a) \<times> 'p"

definition resolve :: "'a \<Rightarrow> ('p, 'e, 'a) io" where
  "resolve x w = (Inr x, w)"

definition throw :: "thrown \<Rightarrow> ('p, 'e, 'a) io" where
  "throw e w = (Inl e, w)"

text \<open>\<^verbatim>\<open>await m; f\<close>: the rest runs only when \<open>m\<close> returned.\<close>

definition andThen :: "('p, 'e, 'a) io \<Rightarrow> ('a \<Rightarrow> ('p, 'e, 'b) io) \<Rightarrow> ('p, 'e, 'b) io" where
  "andThen m f w = (case m w of (Inl e, w') \<Rightarrow> (Inl e, w') | (Inr x, w') \<Rightarrow> f x w')"

text \<open>\<^verbatim>\<open>try { m } catch (e) { h }\<close>\<close>

definition tryCatch :: "('p, 'e, 'a) io \<Rightarrow> (thrown \<Rightarrow> ('p, 'e, 'a) io) \<Rightarrow> ('p, 'e, 'a) io" where
  "tryCatch m h w = (case m w of (Inl e, w') \<Rightarrow> h e w' | (Inr x, w') \<Rightarrow> (Inr x, w'))"

definition emit :: "'e \<Rightarrow> ('p, 'e, unit) io" where
  "emit ev w = (Inr (), w \<lparr> trace := trace w @ [ev] \<rparr>)"

text \<open>An element query: it returns what the page shows and leaves the page as it is.\<close>

definition inspect :: "('p \<Rightarrow> 'a) \<Rightarrow> ('a \<Rightarrow> 'e) \<Rightarrow> ('p, 'e, 'a) io" where
  "inspect q ev w = (Inr (q (page w)), w \<lparr> trace := trace w @ [ev (q (page w))] \<rparr>)"

text \<open>
  A call of a primitive that may throw: the page moves on, and the call is logged with
  whether it returned.
\<close>

definition returned :: "thrown + 'a \<Rightarrow> bool" where
  "returned r = (case r of Inl e \<Rightarrow> False | Inr x \<Rightarrow> True)"

definition perform :: "('p, 'a) prim \<Rightarrow> (bool \<Rightarrow> 'e) \<Rightarrow> ('p, 'e, 'a) io" where
  "perform act ev w =
     (case act (page w) of
        (r, p') \<Rightarrow> (r, \<lparr> page = p', trace = trace w @ [ev (returned r)] \<rparr>))"

text \<open>
  A call that is logged as made, whether it returns or throws (the calls of the bootstrap,
  \<^verbatim>\<open>browser.close\<close> and the injected \<^verbatim>\<open>window.alert\<close>).
\<close>

definition call :: "'e \<Rightarrow> ('p, 'a) prim \<Rightarrow> ('p, 'e, 'a) io" where
  "call ev act w =
     (case act (page w) of
        (r, p') \<Rightarrow> (r, \<lparr> page = p', trace = trace w @ [ev] \<rparr>))"

datatype task_event =
    FillOutEmail bool
  | FillOutPhoneNumber string bool
  | ClickSubmitButton "string option" bool
  | FillOutVerificationCode bool
  | FillOutCountry bool
  | FillOutBusinessType bool
  | QueryStatus nat
  | QueryDialogButton bool
  | ClickDialogButton bool

text \<open>The options handed to the spinner; its \<^verbatim>\<open>text\<close> property is the field \<open>text_label\<close>.\<close>

record OraOptions =
  text_label :: string
  isSilent :: bool
  isEnabled :: bool

datatype event =
    Spinner OraOptions
  | Launch bool
  | NewPage
  | SetExtraHTTPHeaders "(string \<times> string) list"
  | Goto string
  | WaitForNetworkIdle nat bool
  | QueryHeading "string option"
  | RunTask string
  | InTask task_event
  | QueryAlerts "string list"
  | WindowAlert string
  | BrowserClose

text \<open>
  \<^verbatim>\<open>FlowContext\<close>: the resolved options and values (the page handle is the world). Its
  \<^verbatim>\<open>values\<close> property is the field \<open>ctx_values\<close>.
\<close>

record 'o FlowContext =
  options :: "(OnboardValues, 'o) OnboardOptions"
  ctx_values :: OnboardValues

text \<open>A step task: a named function of the context.\<close>

type_synonym ('p, 'o) task = "string \<times> ('o FlowContext \<Rightarrow> ('p, task_event, unit) io)"

text \<open>
  What the engine takes from outside \<^verbatim>\<open>src/onboard.ts\<close>: the behaviour of the page under
  puppeteer's calls, the field fillers of \<^verbatim>\<open>./tasks/stripe\<close>, the flow registry
  \<^verbatim>\<open>./flows\<close>, \<^verbatim>\<open>JSON.stringify\<close> and the version of \<^verbatim>\<open>package.json\<close>. Every call that
  acts on the browser may throw: launching, opening the page, setting the headers,
  navigating, waiting, clicking, the field fillers, the injected \<^verbatim>\<open>window.alert\<close> and
  \<^verbatim>\<open>browser.close\<close>; so may the awaited location test (\<open>onStripe\<close> is what the Promise of
  \<^verbatim>\<open>isOnStripePage\<close> settles to). The element queries of the loop and of the summary page
  (\<open>$\<close>, \<open>$$\<close>, \<open>textContent\<close>) are taken to return.
\<close>

record ('p, 'o) env =
  launch :: "bool \<Rightarrow> ('p, unit) prim"
  newPage :: "('p, unit) prim"
  setExtraHTTPHeaders :: "(string \<times> string) list \<Rightarrow> ('p, unit) prim"
  goto :: "string \<Rightarrow> ('p, unit) prim"
  browser_close :: "('p, unit) prim"
  windowAlert :: "string \<Rightarrow> ('p, unit) prim"
  waitForNetworkIdle :: "nat \<Rightarrow> ('p, unit) prim"
  heading :: "'p \<Rightarrow> string option"
  alerts :: "'p \<Rightarrow> string list"
  statusBoxes :: "'p \<Rightarrow> nat"
  dialogConfirmButton :: "'p \<Rightarrow> bool"
  click :: "('p, unit) prim"
  location_href :: "'p \<Rightarrow> string"
  onStripe :: "'p \<Rightarrow> thrown + bool"
  fillOutEmail :: "'o FlowContext \<Rightarrow> ('p, unit) prim"
  fillOutPhoneNumber :: "'o FlowContext \<Rightarrow> string \<Rightarrow> ('p, unit) prim"
  clickSubmitButton :: "'o FlowContext \<Rightarrow> string option \<Rightarrow> ('p, unit) prim"
  fillOutVerificationCode :: "'o FlowContext \<Rightarrow> ('p, unit) prim"
  fillOutCountry :: "'o FlowContext \<Rightarrow> ('p, unit) prim"
  fillOutBusinessType :: "'o FlowContext \<Rightarrow> ('p, unit) prim"
  allFlows :: "BusinessType \<Rightarrow> ('p, 'o) task list"
  stringify_object :: "'o \<Rightarrow> string"
  stringify_values :: "OnboardValues \<Rightarrow> string"
  version :: string

section \<open>\<^verbatim>\<open>src/tasks/puppeteer.ts\<close>\<close>

text \<open>\<^verbatim>\<open>await page.waitForNetworkIdle({ idleTime: 3000 })\<close>\<close>

definition waitForNavigation :: "('p, 'o) env \<Rightarrow> ('p, event, unit) io" where
  "waitForNavigation env = perform (waitForNetworkIdle env 3000) (WaitForNetworkIdle 3000)"

text \<open>An \<open>async\<close> function: its call is a Promise of \<^verbatim>\<open>document.location.href\<close>.\<close>

definition getCurrentUrl :: "('p, 'o) env \<Rightarrow> 'p \<Rightarrow> string promise" where
  "getCurrentUrl env p = Promise (location_href env p)"

section \<open>\<^verbatim>\<open>./tasks/stripe\<close>\<close>

text \<open>
  Modelled from the spec: \<^verbatim>\<open>isOnStripePage\<close> of \<^verbatim>\<open>./tasks/stripe\<close>, which is not among the
  sources. It tests "whether the session is still on the expected site/domain"; like every
  page primitive it is asynchronous (the handler of \<^verbatim>\<open>fillOutFlow\<close> awaits it), so its
  call is a Promise that settles to that test or rejects. The call only reads the
  location: it leaves the page and the trace as they are, awaited or not.
\<close>

definition isOnStripePage :: "('p, 'o) env \<Rightarrow> ('p, 'e) world \<Rightarrow> (thrown + bool) promise" where
  "isOnStripePage env w = Promise (onStripe env (page w))"

text \<open>
  \<^verbatim>\<open>await f(context)\<close> for an asynchronous function of the session that only reads it: the
  value the Promise settles to, or its rejection thrown.
\<close>

definition awaiting :: "(('p, 'e) world \<Rightarrow> (thrown + 'a) promise) \<Rightarrow> ('p, 'e, 'a) io" where
  "awaiting f w = (await (f w), w)"

section \<open>The flow execution engine (\<^verbatim>\<open>src/onboard.ts\<close>)\<close>

definition getOraOptions :: "('v, 'o) OnboardOptions \<Rightarrow> string \<Rightarrow> OraOptions" where
  "getOraOptions opts txt =
     \<lparr> text_label = txt,
       isSilent = (case silent opts of None \<Rightarrow> True | Some s \<Rightarrow> s),
       isEnabled = (case silent opts of None \<Rightarrow> True | Some s \<Rightarrow> s) \<rparr>"

text \<open>
  \<^verbatim>\<open>oraPromise(action, options)\<close> shows a spinner while the action runs and hands on its
  result or its error.
\<close>

definition oraPromise :: "('p, event, 'a) io \<Rightarrow> OraOptions \<Rightarrow> ('p, event, 'a) io" where
  "oraPromise action opts = andThen (emit (Spinner opts)) (\<lambda>_. action)"

text \<open>
  \<^verbatim>\<open>await task(context)\<close>: the task runs on the page; the engine's trace records that it
  was started, then what it did.
\<close>

definition runTask :: "('p, 'o) task \<Rightarrow> 'o FlowContext \<Rightarrow> ('p, event, unit) io" where
  "runTask task context w =
     (case snd task context \<lparr> page = page w, trace = [] \<rparr> of
        (r, tw) \<Rightarrow>
          (r, \<lparr> page = page tw, trace = trace w @ RunTask (fst task) # map InTask (trace tw) \<rparr>))"

definition fillOutGetPaidByPage :: "('p, 'o) env \<Rightarrow> 'o FlowContext \<Rightarrow> ('p, task_event, unit) io" where
  "fillOutGetPaidByPage env context =
     andThen (perform (fillOutEmail env context) FillOutEmail) (\<lambda>_.
     andThen (perform (fillOutPhoneNumber env context ''personal'') (FillOutPhoneNumber ''personal'')) (\<lambda>_.
     perform (clickSubmitButton env context None) (ClickSubmitButton None)))"

definition fillOutVerificationCodePage :: "('p, 'o) env \<Rightarrow> 'o FlowContext \<Rightarrow> ('p, task_event, unit) io" where
  "fillOutVerificationCodePage env context =
     perform (fillOutVerificationCode env context) FillOutVerificationCode"

definition fillOutTellUsAboutYourBusinessPage :: "('p, 'o) env \<Rightarrow> 'o FlowContext \<Rightarrow> ('p, task_event, unit) io" where
  "fillOutTellUsAboutYourBusinessPage env context =
     andThen (perform (fillOutCountry env context) FillOutCountry) (\<lambda>_.
     perform (fillOutBusinessType env context) FillOutBusinessType)"

definition fillOutSummaryPage :: "('p, 'o) env \<Rightarrow> 'o FlowContext \<Rightarrow> ('p, task_event, unit) io" where
  "fillOutSummaryPage env context =
     andThen (inspect (statusBoxes env) QueryStatus) (\<lambda>statusBoxes_length.
     if statusBoxes_length > 0
     then throw (Error ''Fields were missing in summary despite no errors during flow.'')
     else
       andThen (perform (clickSubmitButton env context (Some ''requirements-index-done-button''))
                  (ClickSubmitButton (Some ''requirements-index-done-button''))) (\<lambda>_.
       andThen (inspect (dialogConfirmButton env) QueryDialogButton) (\<lambda>present.
       if present then perform (click env) ClickDialogButton else resolve ())))"

fun fillOutPages :: "('p, 'o) env \<Rightarrow> 'o FlowContext \<Rightarrow> ('p, 'o) task list \<Rightarrow> ('p, event, unit) io" where
  "fillOutPages env context [] = resolve ()"
| "fillOutPages env context (task # pageTasks) =
     andThen (oraPromise (waitForNavigation env)
                (getOraOptions (options context) ''Navigating...'')) (\<lambda>_ w.
     if \<not> ToBoolean (isOnStripePage env w) then resolve () w
     else
       andThen (inspect (heading env) QueryHeading) (\<lambda>headingText.
       andThen (oraPromise (runTask task context)
                  (getOraOptions (options context)
                     (case headingText of None \<Rightarrow> [] | Some t \<Rightarrow> trim t))) (\<lambda>_.
       andThen (inspect (alerts env) QueryAlerts) (\<lambda>validationErrors.
       if length validationErrors > 0
       then throw (Error (''Validation errors found. '' @ join ''. '' validationErrors))
       else
         andThen (oraPromise (waitForNavigation env)
                    (getOraOptions (options context) ''Submitting...'')) (\<lambda>_.
         fillOutPages env context pageTasks)))) w)"

definition closeBrowser :: "('p, 'o) env \<Rightarrow> ('v, 'o) OnboardOptions \<Rightarrow> ('p, event, unit) io" where
  "closeBrowser env opts =
     oraPromise (call BrowserClose (browser_close env)) (getOraOptions opts ''Closing browser'')"

text \<open>
  Lines 132 to 165 of \<^verbatim>\<open>fillOutFlow\<close>: launch the browser, open a page, set the language
  header and go to the starting URL. They run before the \<^verbatim>\<open>try\<close> block: what one of them
  throws leaves the flow at once.
\<close>

definition bootstrap :: "('p, 'o) env \<Rightarrow> ('v, 'o) OnboardOptions \<Rightarrow> ('p, event, unit) io" where
  "bootstrap env opts =
     andThen (oraPromise
                (call (Launch (case headless opts of None \<Rightarrow> True | Some h \<Rightarrow> h))
                   (launch env (case headless opts of None \<Rightarrow> True | Some h \<Rightarrow> h)))
                (getOraOptions opts
                   (''Launching'' @ (if headless opts = Some True then '' headless'' else []) @ '' browser''))) (\<lambda>_.
     oraPromise
       (andThen (call NewPage (newPage env)) (\<lambda>_.
        andThen (call (SetExtraHTTPHeaders [(''Accept-Language'', ''en-US'')])
                   (setExtraHTTPHeaders env [(''Accept-Language'', ''en-US'')])) (\<lambda>_.
        call (Goto (url opts)) (goto env (url opts)))))
       (getOraOptions opts ''Navigating to Stripe''))"

text \<open>The text handed to \<^verbatim>\<open>window.alert\<close> in debug mode (line 192).\<close>

definition stringify_debug :: "('p, 'o) env \<Rightarrow> 'o debug \<Rightarrow> string" where
  "stringify_debug env d =
     (case d of
        DebugUndefined \<Rightarrow> ''undefined''
      | DebugBool b \<Rightarrow> (if b then ''true'' else ''false'')
      | DebugObject obj \<Rightarrow> stringify_object env obj)"

definition debugText :: "('p, 'o) env \<Rightarrow> (OnboardValues, 'o) OnboardOptions \<Rightarrow> thrown \<Rightarrow> 'p \<Rightarrow> string" where
  "debugText env opts e p =
     toString e @ newline @ ''debug: '' @ stringify_debug env (debug opts)
       @ newline @ ''values: '' @ (case vals opts of None \<Rightarrow> ''undefined'' | Some v \<Rightarrow> stringify_values env v)
       @ newline @ ''url: '' @ ToString (getCurrentUrl env p)
       @ newline @ version env"

text \<open>
  The array handed to \<^verbatim>\<open>fillOutPages\<close> (lines 174 to 180): the three prologue tasks, the
  tasks of the flow, the summary task.
\<close>

definition combinedSequence :: "('p, 'o) env \<Rightarrow> ('p, 'o) task list \<Rightarrow> ('p, 'o) task list" where
  "combinedSequence env pageTasks =
     [(''fillOutGetPaidByPage'', fillOutGetPaidByPage env),
      (''fillOutVerificationCodePage'', fillOutVerificationCodePage env),
      (''fillOutTellUsAboutYourBusinessPage'', fillOutTellUsAboutYourBusinessPage env)]
     @ pageTasks
     @ [(''fillOutSummaryPage'', fillOutSummaryPage env)]"

text \<open>
  The \<^verbatim>\<open>catch\<close> block of \<^verbatim>\<open>fillOutFlow\<close> (lines 183 to 198). What the awaited location
  test, the injected alert or the closing of the browser throws leaves the block in place
  of the error that was caught.
\<close>

definition catchBlock ::
  "('p, 'o) env \<Rightarrow> (OnboardValues, 'o) OnboardOptions \<Rightarrow> thrown \<Rightarrow> ('p, event, unit) io" where
  "catchBlock env opts e =
     andThen (awaiting (isOnStripePage env)) (\<lambda>onSite.
     if \<not> onSite then resolve ()
     else if truthy (debug opts)
     then (\<lambda>w. call (WindowAlert (debugText env opts e (page w)))
                  (windowAlert env (debugText env opts e (page w))) w)
     else andThen (closeBrowser env opts) (\<lambda>_. throw e))"

definition fillOutFlow ::
  "('p, 'o) env \<Rightarrow> (OnboardValues, 'o) OnboardOptions \<Rightarrow> ('p, 'o) task list \<Rightarrow> ('p, event, unit) io" where
  "fillOutFlow env opts pageTasks =
     (case vals opts of
        None \<Rightarrow> throw (Error ''Values must be set.'')
      | Some v \<Rightarrow>
          andThen (bootstrap env opts) (\<lambda>_.
          let context = \<lparr> options = opts, ctx_values = v \<rparr> in
          tryCatch
            (andThen (fillOutPages env context (combinedSequence env pageTasks)) (\<lambda>_.
             closeBrowser env opts))
            (catchBlock env opts)))"

definition onboard ::
  "('p, 'o) env \<Rightarrow> faker \<Rightarrow> (PartialOnboardValues, 'o) OnboardOptions \<Rightarrow> ('p, event, unit) io" where
  "onboard env fk opts =
     (let headless' = (if headless opts = None then Some True else headless opts);
          silent' = (if silent opts = None then Some True else silent opts);
          values' = mergedValues fk (vals opts)
      in fillOutFlow env
           \<lparr> headless = headless', silent = silent', vals = Some values',
             url = url opts, debug = debug opts \<rparr>
           (allFlows env (business_type values')))"

text \<open>The options \<^verbatim>\<open>onboard\<close> hands to \<^verbatim>\<open>fillOutFlow\<close>, and the context built from them.\<close>

definition resolvedOptions ::
  "faker \<Rightarrow> (PartialOnboardValues, 'o) OnboardOptions \<Rightarrow> (OnboardValues, 'o) OnboardOptions" where
  "resolvedOptions fk opts =
     \<lparr> headless = (if headless opts = None then Some True else headless opts),
       silent = (if silent opts = None then Some True else silent opts),
       vals = Some (mergedValues fk (vals opts)),
       url = url opts, debug = debug opts \<rparr>"

definition resolvedContext :: "faker \<Rightarrow> (PartialOnboardValues, 'o) OnboardOptions \<Rightarrow> 'o FlowContext" where
  "resolvedContext fk opts =
     \<lparr> options = resolvedOptions fk opts, ctx_values = mergedValues fk (vals opts) \<rparr>"

section \<open>Observations on a run\<close>

text \<open>The outcome of a computation started in a world, and the calls it added to the trace.\<close>

definition outcome :: "('p, 'e, 'a) io \<Rightarrow> ('p, 'e) world \<Rightarrow> thrown + 'a" where
  "outcome m w = fst (m w)"

definition eventsOf :: "('p, 'e, 'a) io \<Rightarrow> ('p, 'e) world \<Rightarrow> 'e list" where
  "eventsOf m w = drop (length (trace w)) (trace (snd (m w)))"

text \<open>The names of the step tasks started, in the order they were started.\<close>

fun started :: "event list \<Rightarrow> string list" where
  "started [] = []"
| "started (RunTask n # es) = n # started es"
| "started (e # es) = started es"

section \<open>The events of one step, of the bootstrap and of the teardown\<close>

text \<open>
  What one pass of the loop of \<^verbatim>\<open>fillOutPages\<close> adds to the trace up to the start of the
  task, and after a validation check that found no alert.
\<close>

definition stepHead :: "('p, 'o) env \<Rightarrow> 'o FlowContext \<Rightarrow> ('p, 'o) task \<Rightarrow> 'p \<Rightarrow> event list" where
  "stepHead env context task p =
     [Spinner (getOraOptions (options context) ''Navigating...''),
      WaitForNetworkIdle 3000 True,
      QueryHeading (heading env p),
      Spinner (getOraOptions (options context) (case heading env p of None \<Rightarrow> [] | Some t \<Rightarrow> trim t)),
      RunTask (fst task)]"

definition stepTail :: "'o FlowContext \<Rightarrow> bool \<Rightarrow> event list" where
  "stepTail context ok =
     [QueryAlerts [],
      Spinner (getOraOptions (options context) ''Submitting...''),
      WaitForNetworkIdle 3000 ok]"

text \<open>
  What lines 132 to 165 of \<^verbatim>\<open>fillOutFlow\<close> add to the trace when each of their calls
  returns, and what \<^verbatim>\<open>closeBrowser\<close> adds.
\<close>

definition bootEvents :: "('v, 'o) OnboardOptions \<Rightarrow> event list" where
  "bootEvents opts =
     [Spinner (getOraOptions opts
         (''Launching'' @ (if headless opts = Some True then '' headless'' else []) @ '' browser'')),
      Launch (case headless opts of None \<Rightarrow> True | Some h \<Rightarrow> h),
      Spinner (getOraOptions opts ''Navigating to Stripe''),
      NewPage,
      SetExtraHTTPHeaders [(''Accept-Language'', ''en-US'')],
      Goto (url opts)]"

definition closeEvents :: "('v, 'o) OnboardOptions \<Rightarrow> event list" where
  "closeEvents opts = [Spinner (getOraOptions opts ''Closing browser''), BrowserClose]"

section \<open>The per-step protocol as an automaton on traces\<close>

text \<open>
  The phase of the engine as read off the trace. \<open>Idle\<close>: at the head of the loop (before
  the first step, or after a post-step wait that resolved). \<open>Ready\<close>: the pre-step wait has
  resolved. \<open>Running\<close>: a task has been started. \<open>Passed\<close>: the validation check found no
  alert. \<open>Stopped\<close>: a wait threw or the check found alerts. \<open>Broken\<close>: a call was made
  out of turn. A task may only be started in phase \<open>Ready\<close>.
\<close>

datatype phase = Idle | Ready | Running | Passed | Stopped | Broken

fun advance :: "phase \<Rightarrow> event \<Rightarrow> phase" where
  "advance ph (WaitForNetworkIdle n ok) =
     (if n \<noteq> 3000 then Broken
      else if ph = Idle then (if ok then Ready else Stopped)
      else if ph = Passed then (if ok then Idle else Stopped)
      else Broken)"
| "advance ph (QueryHeading h) = (if ph = Ready then Ready else Broken)"
| "advance ph (RunTask n) = (if ph = Ready then Running else Broken)"
| "advance ph (InTask te) = (if ph = Running then Running else Broken)"
| "advance ph (QueryAlerts als) =
     (if ph = Running then (if als = [] then Passed else Stopped) else Broken)"
| "advance ph (Spinner sp) = ph"
| "advance ph (Launch h) = (if ph = Idle then Idle else Broken)"
| "advance ph NewPage = (if ph = Idle then Idle else Broken)"
| "advance ph (SetExtraHTTPHeaders hs) = (if ph = Idle then Idle else Broken)"
| "advance ph (Goto u) = (if ph = Idle then Idle else Broken)"
| "advance ph (WindowAlert txt) = (if ph \<in> {Idle, Running, Stopped} then ph else Broken)"
| "advance ph BrowserClose = (if ph \<in> {Idle, Running, Stopped} then ph else Broken)"

definition follows :: "phase \<Rightarrow> event list \<Rightarrow> phase" where
  "follows ph evs = foldl advance ph evs"

definition label :: "event \<Rightarrow> bool" where
  "label e = (case e of QueryHeading h \<Rightarrow> True | Spinner sp \<Rightarrow> True | _ \<Rightarrow> False)"

definition spinner :: "event \<Rightarrow> bool" where
  "spinner e = (case e of Spinner sp \<Rightarrow> True | _ \<Rightarrow> False)"

text \<open>The calls of the bootstrap, and the calls made after the step sequence.\<close>

fun bootEvent :: "event \<Rightarrow> bool" where
  "bootEvent (Spinner sp) = True"
| "bootEvent (Launch h) = True"
| "bootEvent NewPage = True"
| "bootEvent (SetExtraHTTPHeaders hs) = True"
| "bootEvent (Goto u) = True"
| "bootEvent e = False"

fun finalEvent :: "event \<Rightarrow> bool" where
  "finalEvent (Spinner sp) = True"
| "finalEvent (WindowAlert txt) = True"
| "finalEvent BrowserClose = True"
| "finalEvent e = False"


section \<open>A sample session\<close>

text \<open>
  A page that is a counter of the actions done on it. The parameters choose whether the
  location is on the Stripe site, which alerts the page shows, and whether the e-mail
  filler throws (as it does when its field never appears). The registry holds one step
  for companies and none for the other categories.
\<close>

definition samplePrim :: "thrown option \<Rightarrow> (nat, unit) prim" where
  "samplePrim failure p = (case failure of None \<Rightarrow> (Inr (), Suc p) | Some e \<Rightarrow> (Inl e, p))"

definition sampleEnv :: "bool \<Rightarrow> string list \<Rightarrow> thrown option \<Rightarrow> (nat, unit) env" where
  "sampleEnv onSite alertTexts failure = \<lparr>
     launch = (\<lambda>h p. (Inr (), p)),
     newPage = (\<lambda>p. (Inr (), p)),
     setExtraHTTPHeaders = (\<lambda>hs p. (Inr (), p)),
     goto = (\<lambda>u p. (Inr (), 0)),
     browser_close = (\<lambda>p. (Inr (), p)),
     windowAlert = (\<lambda>txt p. (Inr (), p)),
     waitForNetworkIdle = (\<lambda>idleTime p. (Inr (), p)),
     heading = (\<lambda>p. Some '' Get paid ''),
     alerts = (\<lambda>p. alertTexts),
     statusBoxes = (\<lambda>p. 0),
     dialogConfirmButton = (\<lambda>p. True),
     click = samplePrim None,
     location_href = (\<lambda>p. ''https://connect.stripe.com/setup/e/acct_1''),
     onStripe = (\<lambda>p. Inr onSite),
     fillOutEmail = (\<lambda>context. samplePrim failure),
     fillOutPhoneNumber = (\<lambda>context kind. samplePrim None),
     clickSubmitButton = (\<lambda>context testId. samplePrim None),
     fillOutVerificationCode = (\<lambda>context. samplePrim None),
     fillOutCountry = (\<lambda>context. samplePrim None),
     fillOutBusinessType = (\<lambda>context. samplePrim None),
     allFlows = (\<lambda>bt. if bt = company then [(''fillOutCompanyPage'', \<lambda>context. resolve ())] else []),
     stringify_object = (\<lambda>obj. ''{}''),
     stringify_values = (\<lambda>v. ''{...}''),
     version = ''1.0.0'' \<rparr>"

definition sampleFaker :: faker where
  "sampleFaker = \<lparr>
     name_firstName = ''Ada'',
     name_lastName = ''Lovelace'',
     company_name_draw = ''Analytical Engines'',
     internet_url = ''https://engines.example'',
     internet_exampleEmail = (\<lambda>f l. f @ ''.'' @ l @ ''@example.org''),
     name_jobTitle = ''Engineer'' \<rparr>"

definition sampleOptions :: "unit debug \<Rightarrow> (PartialOnboardValues, unit) OnboardOptions" where
  "sampleOptions d = \<lparr>
     headless = None, silent = None, vals = None,
     url = ''https://connect.stripe.com/setup/e/acct_1'', debug = d \<rparr>"

text \<open>The options and the context \<^verbatim>\<open>onboard\<close> hands to \<^verbatim>\<open>fillOutFlow\<close> for \<open>sampleOptions\<close>.\<close>

definition sampleResolved :: "unit debug \<Rightarrow> (OnboardValues, unit) OnboardOptions" where
  "sampleResolved d = \<lparr>
     headless = Some True, silent = Some True, vals = Some (mergedValues sampleFaker None),
     url = ''https://connect.stripe.com/setup/e/acct_1'', debug = d \<rparr>"

definition sampleContext :: "unit debug \<Rightarrow> unit FlowContext" where
  "sampleContext d = \<lparr> options = sampleResolved d, ctx_values = mergedValues sampleFaker None \<rparr>"

definition blank :: "(nat, event) world" where
  "blank = \<lparr> page = 0, trace = [] \<rparr>"

definition timeout :: thrown where
  "timeout = Thrown ''TimeoutError'' ''Waiting for selector failed''"

text \<open>Values a caller gives: the country, as the test matrix does, and a phone number.\<close>

definition sampleGiven :: PartialOnboardValues where
  "sampleGiven = \<lparr>
     given_account_number = None, given_address = None, given_business_type = Some individual,
     given_company_name = None, given_company_phone = None, given_company_tax_id = None,
     given_company_url = None, given_date_of_birth = None, given_country = Some ''DK'',
     given_email = None, given_first_name = None, given_id_number = None, given_last_name = None,
     given_phone = Some ''12345678'', given_routing_number = None, given_ssn_last_4 = None,
     given_title = None \<rparr>"

text \<open>A summary page with two missing-information boxes, and one whose submit button cannot be clicked.\<close>

definition incompleteEnv :: "(nat, unit) env" where
  "incompleteEnv = (sampleEnv True [] None) \<lparr> statusBoxes := (\<lambda>p. 2) \<rparr>"

definition unclickableEnv :: "(nat, unit) env" where
  "unclickableEnv = (sampleEnv True [] None)
     \<lparr> clickSubmitButton := (\<lambda>context testId. samplePrim (Some timeout)) \<rparr>"

definition summaryWorld :: "(nat, task_event) world" where
  "summaryWorld = \<lparr> page = 7, trace = [] \<rparr>"

text \<open>A session on the Stripe site whose second step fails: the verification code field never appears.\<close>

definition stalledEnv :: "(nat, unit) env" where
  "stalledEnv = (sampleEnv True [] None)
     \<lparr> fillOutVerificationCode := (\<lambda>context. samplePrim (Some timeout)) \<rparr>"

text \<open>
  A session on the Stripe site whose first step fails and whose browser can no longer be
  closed, and a session in which the network never falls idle.
\<close>

definition targetClosed :: thrown where
  "targetClosed = Thrown ''TargetCloseError'' ''Protocol error (Browser.close): Target closed''"

definition lostEnv :: "(nat, unit) env" where
  "lostEnv = (sampleEnv True [] (Some timeout)) \<lparr> browser_close := (\<lambda>p. (Inl targetClosed, p)) \<rparr>"

definition busyEnv :: "(nat, unit) env" where
  "busyEnv = (sampleEnv True [] None) \<lparr> waitForNetworkIdle := (\<lambda>idleTime p. (Inl timeout, p)) \<rparr>"

section \<open>One pass of the loop, evaluated\<close>

lemma fillOutPages_Cons_cases [consumes 1, case_names preWaitThrows taskThrows rejected postWaitThrows continue]:
  assumes run: "fillOutPages env context (task # pageTasks) w = (r, w')"
  obtains
    (preWaitThrows) e p1 where
      "waitForNetworkIdle env 3000 (page w) = (Inl e, p1)"
      "r = Inl e"
      "w' = \<lparr> page = p1, trace = trace w @
               [Spinner (getOraOptions (options context) ''Navigating...''), WaitForNetworkIdle 3000 False] \<rparr>"
  | (taskThrows) p1 e tw where
      "waitForNetworkIdle env 3000 (page w) = (Inr (), p1)"
      "snd task context \<lparr> page = p1, trace = [] \<rparr> = (Inl e, tw)"
      "r = Inl e"
      "w' = \<lparr> page = page tw, trace = trace w @ stepHead env context task p1 @ map InTask (trace tw) \<rparr>"
  | (rejected) p1 tw where
      "waitForNetworkIdle env 3000 (page w) = (Inr (), p1)"
      "snd task context \<lparr> page = p1, trace = [] \<rparr> = (Inr (), tw)"
      "alerts env (page tw) \<noteq> []"
      "r = Inl (Error (''Validation errors found. '' @ join ''. '' (alerts env (page tw))))"
      "w' = \<lparr> page = page tw, trace = trace w @ stepHead env context task p1 @ map InTask (trace tw)
               @ [QueryAlerts (alerts env (page tw))] \<rparr>"
  | (postWaitThrows) p1 tw e p2 where
      "waitForNetworkIdle env 3000 (page w) = (Inr (), p1)"
      "snd task context \<lparr> page = p1, trace = [] \<rparr> = (Inr (), tw)"
      "alerts env (page tw) = []"
      "waitForNetworkIdle env 3000 (page tw) = (Inl e, p2)"
      "r = Inl e"
      "w' = \<lparr> page = p2, trace = trace w @ stepHead env context task p1 @ map InTask (trace tw)
               @ stepTail context False \<rparr>"
  | (continue) p1 tw p2 where
      "waitForNetworkIdle env 3000 (page w) = (Inr (), p1)"
      "snd task context \<lparr> page = p1, trace = [] \<rparr> = (Inr (), tw)"
      "alerts env (page tw) = []"
      "waitForNetworkIdle env 3000 (page tw) = (Inr (), p2)"
      "fillOutPages env context pageTasks
         \<lparr> page = p2, trace = trace w @ stepHead env context task p1 @ map InTask (trace tw)
               @ stepTail context True \<rparr> = (r, w')"
proof -
  note defs = andThen_def oraPromise_def emit_def waitForNavigation_def perform_def
    returned_def ToBoolean_def inspect_def runTask_def stepHead_def stepTail_def throw_def
  obtain r1 p1 where w1: "waitForNetworkIdle env 3000 (page w) = (r1, p1)"
    by (cases "waitForNetworkIdle env 3000 (page w)")
  show thesis
  proof (cases r1)
    case (Inl e)
    with w1 have "fillOutPages env context (task # pageTasks) w =
        (Inl e, \<lparr> page = p1, trace = trace w @
               [Spinner (getOraOptions (options context) ''Navigating...''), WaitForNetworkIdle 3000 False] \<rparr>)"
      by (simp add: defs)
    with run have "r = Inl e" "w' = \<lparr> page = p1, trace = trace w @
               [Spinner (getOraOptions (options context) ''Navigating...''), WaitForNetworkIdle 3000 False] \<rparr>"
      by simp_all
    with w1 Inl show thesis by (intro preWaitThrows [of e p1]) simp_all
  next
    case (Inr u1)
    obtain r2 tw where t: "snd task context \<lparr> page = p1, trace = [] \<rparr> = (r2, tw)"
      by (cases "snd task context \<lparr> page = p1, trace = [] \<rparr>")
    show thesis
    proof (cases r2)
      case (Inl e)
      with w1 Inr t have "fillOutPages env context (task # pageTasks) w =
          (Inl e, \<lparr> page = page tw, trace = trace w @ stepHead env context task p1 @ map InTask (trace tw) \<rparr>)"
        by (simp add: defs)
      with run have "r = Inl e"
        "w' = \<lparr> page = page tw, trace = trace w @ stepHead env context task p1 @ map InTask (trace tw) \<rparr>"
        by simp_all
      with w1 Inr t Inl show thesis by (intro taskThrows [of p1 e tw]) simp_all
    next
      case u2: (Inr u2)
      show thesis
      proof (cases "alerts env (page tw) = []")
        case False
        with w1 Inr t u2 have "fillOutPages env context (task # pageTasks) w =
          (Inl (Error (''Validation errors found. '' @ join ''. '' (alerts env (page tw)))),
           \<lparr> page = page tw, trace = trace w @ stepHead env context task p1 @ map InTask (trace tw)
               @ [QueryAlerts (alerts env (page tw))] \<rparr>)"
          by (simp add: defs)
        with run have "r = Inl (Error (''Validation errors found. '' @ join ''. '' (alerts env (page tw))))"
          "w' = \<lparr> page = page tw, trace = trace w @ stepHead env context task p1 @ map InTask (trace tw)
               @ [QueryAlerts (alerts env (page tw))] \<rparr>"
          by simp_all
        with w1 Inr t u2 False show thesis by (intro rejected [of p1 tw]) simp_all
      next
        case True
        obtain r3 p2 where w3: "waitForNetworkIdle env 3000 (page tw) = (r3, p2)"
          by (cases "waitForNetworkIdle env 3000 (page tw)")
        show thesis
        proof (cases r3)
          case (Inl e)
          with w1 Inr t u2 True w3 have "fillOutPages env context (task # pageTasks) w =
            (Inl e, \<lparr> page = p2, trace = trace w @ stepHead env context task p1 @ map InTask (trace tw)
               @ stepTail context False \<rparr>)"
            by (simp add: defs)
          with run have "r = Inl e"
            "w' = \<lparr> page = p2, trace = trace w @ stepHead env context task p1 @ map InTask (trace tw)
               @ stepTail context False \<rparr>"
            by simp_all
          with w1 Inr t u2 True w3 Inl show thesis by (intro postWaitThrows [of p1 tw e p2]) simp_all
        next
          case u3: (Inr u3)
          with w1 Inr t u2 True w3 have "fillOutPages env context (task # pageTasks) w =
            fillOutPages env context pageTasks
              \<lparr> page = p2, trace = trace w @ stepHead env context task p1 @ map InTask (trace tw)
                 @ stepTail context True \<rparr>"
            by (simp add: defs)
          with run have "fillOutPages env context pageTasks
              \<lparr> page = p2, trace = trace w @ stepHead env context task p1 @ map InTask (trace tw)
                 @ stepTail context True \<rparr> = (r, w')"
            by simp
          with w1 Inr t u2 True w3 u3 show thesis by (intro continue [of p1 tw p2]) simp_all
        qed
      qed
    qed
  qed
qed


section \<open>Runs follow the protocol\<close>

lemma follows_Nil [simp]: "follows ph [] = ph"
  by (simp add: follows_def)

lemma follows_Cons [simp]: "follows ph (e # evs) = follows (advance ph e) evs"
  by (simp add: follows_def)

lemma follows_append [simp]: "follows ph (xs @ ys) = follows (follows ph xs) ys"
  by (simp add: follows_def)

lemma follows_InTask [simp]: "follows Running (map InTask tevs) = Running"
  by (induction tevs) simp_all

lemma started_append [simp]: "started (xs @ ys) = started xs @ started ys"
  by (induction xs rule: started.induct) simp_all

lemma started_InTask [simp]: "started (map InTask tevs) = []"
  by (induction tevs) simp_all

lemma follows_stepHead [simp]: "follows Idle (stepHead env context task p) = Running"
  by (simp add: stepHead_def)

lemma started_stepHead [simp]: "started (stepHead env context task p) = [fst task]"
  by (simp add: stepHead_def)

lemma follows_stepTail [simp]:
  "follows Running (stepTail context ok) = (if ok then Idle else Stopped)"
  by (simp add: stepTail_def)

lemma started_stepTail [simp]: "started (stepTail context ok) = []"
  by (simp add: stepTail_def)

lemma fillOutPages_protocol:
  "fillOutPages env context pageTasks w = (r, w') \<Longrightarrow>
   \<exists>evs. trace w' = trace w @ evs
     \<and> follows Idle evs \<in> (if r = Inr () then {Idle} else {Running, Stopped})
     \<and> prefix (started evs) (map fst pageTasks)
     \<and> (r = Inr () \<longrightarrow> started evs = map fst pageTasks)"
proof (induction pageTasks arbitrary: w)
  case Nil
  then show ?case by (auto simp: resolve_def)
next
  case (Cons task pageTasks)
  from Cons.prems show ?case
  proof (cases rule: fillOutPages_Cons_cases)
    case (preWaitThrows e p1)
    then show ?thesis by simp
  next
    case (taskThrows p1 e tw)
    then show ?thesis by simp
  next
    case (rejected p1 tw)
    then show ?thesis by simp
  next
    case (postWaitThrows p1 tw e p2)
    then show ?thesis by simp
  next
    case (continue p1 tw p2)
    from Cons.IH [OF continue(5)] obtain evs where
      evs: "trace w' = (trace w @ stepHead env context task p1 @ map InTask (trace tw)
               @ stepTail context True) @ evs"
        "follows Idle evs \<in> (if r = Inr () then {Idle} else {Running, Stopped})"
        "prefix (started evs) (map fst pageTasks)"
        "r = Inr () \<longrightarrow> started evs = map fst pageTasks"
      by auto
    show ?thesis
      by (rule exI [of _ "stepHead env context task p1 @ map InTask (trace tw)
               @ stepTail context True @ evs"]) (use evs in simp)
  qed
qed


section \<open>What the protocol implies\<close>

lemma advance_Broken [simp]: "advance Broken e = Broken"
  by (cases e) simp_all

lemma follows_Broken [simp]: "follows Broken evs = Broken"
  by (induction evs) simp_all


lemma waits_3000:
  "follows ph evs \<noteq> Broken \<Longrightarrow> WaitForNetworkIdle n ok \<in> set evs \<Longrightarrow> n = 3000"
proof (induction evs arbitrary: ph)
  case Nil
  then show ?case by simp
next
  case (Cons e evs)
  show ?case
  proof (cases "e = WaitForNetworkIdle n ok")
    case True
    with Cons.prems(1) show ?thesis by (cases "n = 3000") simp_all
  next
    case False
    with Cons.prems have "follows (advance ph e) evs \<noteq> Broken" "WaitForNetworkIdle n ok \<in> set evs"
      by simp_all
    then show ?thesis by (rule Cons.IH)
  qed
qed

lemma reach_Ready:
  "follows ph xs = Ready \<Longrightarrow>
   (ph = Ready \<and> (\<forall>e\<in>set xs. label e))
   \<or> (\<exists>us vs. xs = us @ WaitForNetworkIdle 3000 True # vs \<and> (\<forall>e\<in>set vs. label e))"
proof (induction xs rule: rev_induct)
  case Nil
  then show ?case by simp
next
  case (snoc e xs)
  from snoc.prems have step: "advance (follows ph xs) e = Ready" by simp
  show ?case
  proof (cases "label e")
    case True
    with step have "follows ph xs = Ready"
      by (cases e) (simp_all add: label_def split: if_splits)
    from snoc.IH [OF this] True show ?thesis
      by (elim disjE exE conjE) (simp, rule disjI2, rule_tac x = us in exI, rule_tac x = "vs @ [e]" in exI, simp)
  next
    case False
    with step have "e = WaitForNetworkIdle 3000 True"
      by (cases e) (simp_all add: label_def split: if_splits)
    then have "xs @ [e] = xs @ WaitForNetworkIdle 3000 True # [] \<and> (\<forall>x\<in>set []. label x)"
      by simp
    then show ?thesis by blast
  qed
qed

lemma leave_Passed:
  "follows Passed zs \<notin> {Passed, Broken} \<Longrightarrow>
   \<exists>sps ok zs'. zs = sps @ WaitForNetworkIdle 3000 ok # zs' \<and> (\<forall>e\<in>set sps. spinner e)"
proof (induction zs)
  case Nil
  then show ?case by simp
next
  case (Cons e zs)
  show ?case
  proof (cases "spinner e")
    case True
    then have "advance Passed e = Passed" by (cases e) (simp_all add: spinner_def)
    with Cons.prems have "follows Passed zs \<notin> {Passed, Broken}" by simp
    from Cons.IH [OF this] obtain sps ok zs' where
      "zs = sps @ WaitForNetworkIdle 3000 ok # zs'" "\<forall>e\<in>set sps. spinner e" by blast
    with True have "e # zs = (e # sps) @ WaitForNetworkIdle 3000 ok # zs' \<and> (\<forall>x\<in>set (e # sps). spinner x)"
      by simp
    then show ?thesis by blast
  next
    case False
    with Cons.prems have "\<exists>ok. e = WaitForNetworkIdle 3000 ok"
      by (cases e) (simp_all add: spinner_def split: if_splits)
    then obtain ok where "e # zs = [] @ WaitForNetworkIdle 3000 ok # zs" by auto
    then show ?thesis by (metis empty_iff list.set(1))
  qed
qed



lemma RunTask_needs_Ready: "advance ph (RunTask a) \<noteq> Broken \<Longrightarrow> ph = Ready"
  by (simp split: if_splits)

lemma follows_not_Broken_prefix: "follows ph (xs @ ys) \<noteq> Broken \<Longrightarrow> follows ph xs \<noteq> Broken"
  by (cases "follows ph xs = Broken") simp_all


lemma wait_before_step:
  assumes "follows Idle (xs @ RunTask a # zs) \<noteq> Broken"
  shows "\<exists>us vs. xs = us @ WaitForNetworkIdle 3000 True # vs \<and> (\<forall>e\<in>set vs. label e)"
proof -
  from assms have "follows Idle (xs @ [RunTask a]) \<noteq> Broken"
    using follows_not_Broken_prefix [of Idle "xs @ [RunTask a]" zs] by simp
  then have "advance (follows Idle xs) (RunTask a) \<noteq> Broken" by simp
  then have "follows Idle xs = Ready" by (rule RunTask_needs_Ready)
  from reach_Ready [OF this] show ?thesis by simp
qed

lemma wait_after_step:
  assumes "follows ph (xs @ QueryAlerts [] # zs) \<in> {Idle, Running, Stopped}"
  shows "\<exists>sps ok zs'. zs = sps @ WaitForNetworkIdle 3000 ok # zs' \<and> (\<forall>e\<in>set sps. spinner e)"
proof -
  from assms have nb: "follows (advance (follows ph xs) (QueryAlerts [])) zs \<in> {Idle, Running, Stopped}"
    by simp
  have "follows ph xs = Running"
  proof (rule ccontr)
    assume "follows ph xs \<noteq> Running"
    then have "advance (follows ph xs) (QueryAlerts []) = Broken" by simp
    with nb show False by simp
  qed
  with nb have "follows Passed zs \<notin> {Passed, Broken}" by auto
  then show ?thesis by (rule leave_Passed)
qed


section \<open>The bootstrap and the handler, evaluated\<close>

lemma closeBrowser_eval:
  "closeBrowser env opts w =
     (case browser_close env (page w) of
        (r, p') \<Rightarrow> (r, \<lparr> page = p', trace = trace w @ closeEvents opts \<rparr>))"
  by (simp add: closeBrowser_def andThen_def oraPromise_def emit_def call_def closeEvents_def
      split: prod.split)

lemma catchBlock_eval:
  "catchBlock env opts e w =
     (case onStripe env (page w) of
        Inl e' \<Rightarrow> (Inl e', w)
      | Inr onSite \<Rightarrow>
          if \<not> onSite then (Inr (), w)
          else if truthy (debug opts)
          then (case windowAlert env (debugText env opts e (page w)) (page w) of
                  (r, p') \<Rightarrow> (r, \<lparr> page = p', trace = trace w @ [WindowAlert (debugText env opts e (page w))] \<rparr>))
          else (case browser_close env (page w) of
                  (r, p') \<Rightarrow> ((case r of Inl e' \<Rightarrow> Inl e' | Inr u \<Rightarrow> Inl e),
                              \<lparr> page = p', trace = trace w @ closeEvents opts \<rparr>)))"
  by (simp add: catchBlock_def andThen_def awaiting_def isOnStripePage_def resolve_def call_def
      closeBrowser_eval throw_def split: sum.split prod.split)

lemma bootstrap_events:
  assumes "bootstrap env opts w = (r, w0)"
  shows "\<exists>bevs. trace w0 = trace w @ bevs \<and> list_all bootEvent bevs
           \<and> (r = Inr () \<longrightarrow> bevs = bootEvents opts)"
proof -
  let ?h = "case headless opts of None \<Rightarrow> True | Some h \<Rightarrow> h"
  obtain r1 p1 where 1: "launch env ?h (page w) = (r1, p1)"
    by (cases "launch env ?h (page w)")
  obtain r2 p2 where 2: "newPage env p1 = (r2, p2)"
    by (cases "newPage env p1")
  obtain r3 p3 where 3: "setExtraHTTPHeaders env [(''Accept-Language'', ''en-US'')] p2 = (r3, p3)"
    by (cases "setExtraHTTPHeaders env [(''Accept-Language'', ''en-US'')] p2")
  obtain r4 p4 where 4: "goto env (url opts) p3 = (r4, p4)"
    by (cases "goto env (url opts) p3")
  from assms 1 2 3 4 show ?thesis
    by (cases r1; cases r2; cases r3; cases r4)
      (auto simp: bootstrap_def andThen_def oraPromise_def emit_def call_def bootEvents_def)
qed

lemma fillOutFlow_boot_threw:
  assumes "vals opts = Some v" and "bootstrap env opts w = (Inl e, w0)"
  shows "fillOutFlow env opts pageTasks w = (Inl e, w0)"
  using assms by (simp add: fillOutFlow_def andThen_def)

lemma fillOutFlow_eval:
  assumes "vals opts = Some v"
    and "bootstrap env opts w = (Inr (), w0)"
    and "fillOutPages env \<lparr> options = opts, ctx_values = v \<rparr> (combinedSequence env pageTasks) w0 = (r, w1)"
  shows "fillOutFlow env opts pageTasks w =
     (case r of
        Inl e \<Rightarrow> catchBlock env opts e w1
      | Inr u \<Rightarrow>
          (case closeBrowser env opts w1 of
             (Inl e, w2) \<Rightarrow> catchBlock env opts e w2
           | (Inr u, w2) \<Rightarrow> (Inr (), w2)))"
  using assms
  by (cases r) (simp_all add: fillOutFlow_def andThen_def tryCatch_def Let_def split: prod.split sum.split)

section \<open>Kinds of events\<close>

lemma bootEvents_follows: "list_all bootEvent evs \<Longrightarrow> follows Idle evs = Idle"
proof (induction evs)
  case Nil
  show ?case by simp
next
  case (Cons e evs)
  then show ?case by (cases e) simp_all
qed

lemma bootEvents_started: "list_all bootEvent evs \<Longrightarrow> started evs = []"
proof (induction evs)
  case Nil
  show ?case by simp
next
  case (Cons e evs)
  then show ?case by (cases e) simp_all
qed

lemma finalEvents_follows:
  "list_all finalEvent evs \<Longrightarrow> ph \<in> {Idle, Running, Stopped} \<Longrightarrow> follows ph evs = ph"
proof (induction evs)
  case Nil
  show ?case by simp
next
  case (Cons e evs)
  then show ?case by (cases e) auto
qed

lemma finalEvents_started: "list_all finalEvent evs \<Longrightarrow> started evs = []"
proof (induction evs)
  case Nil
  show ?case by simp
next
  case (Cons e evs)
  then show ?case by (cases e) simp_all
qed

lemma bootEvent_bootEvents: "list_all bootEvent (bootEvents opts)"
  by (simp add: bootEvents_def)

lemma finalEvent_closeEvents: "list_all finalEvent (closeEvents opts)"
  by (simp add: closeEvents_def)

lemma catchBlock_events:
  assumes "catchBlock env opts e w = (r, w')"
  shows "\<exists>fin. trace w' = trace w @ fin \<and> list_all finalEvent fin
           \<and> (r = Inr () \<longrightarrow> BrowserClose \<notin> set fin)"
  using assms
  by (auto simp: catchBlock_eval closeEvents_def split: sum.splits if_splits prod.splits)


section \<open>More on the runs of the loop\<close>

lemma fillOutPages_extends:
  "fillOutPages env context pageTasks w = (r, w') \<Longrightarrow> \<exists>evs. trace w' = trace w @ evs"
  using fillOutPages_protocol by blast






lemma fillOutPages_first_wait:
  assumes "fillOutPages env context (task # pageTasks) w = (r, w')"
    and "trace w' = trace w @ evs"
  shows "\<exists>rest. evs = Spinner (getOraOptions (options context) ''Navigating...'')
           # WaitForNetworkIdle 3000 (returned (fst (waitForNetworkIdle env 3000 (page w)))) # rest"
  using assms(1)
proof (cases rule: fillOutPages_Cons_cases)
  case (preWaitThrows e p1)
  with assms(2) have "evs = [Spinner (getOraOptions (options context) ''Navigating...''),
        WaitForNetworkIdle 3000 False]"
    by simp
  with preWaitThrows(1) show ?thesis by (simp add: returned_def)
next
  case (taskThrows p1 e tw)
  with assms(2) have "evs = stepHead env context task p1 @ map InTask (trace tw)"
    by simp
  with taskThrows(1) show ?thesis by (simp add: returned_def stepHead_def)
next
  case (rejected p1 tw)
  with assms(2) have "evs = stepHead env context task p1 @ map InTask (trace tw)
        @ [QueryAlerts (alerts env (page tw))]"
    by simp
  with rejected(1) show ?thesis by (simp add: returned_def stepHead_def)
next
  case (postWaitThrows p1 tw e p2)
  with assms(2) have "evs = stepHead env context task p1 @ map InTask (trace tw)
        @ stepTail context False"
    by simp
  with postWaitThrows(1) show ?thesis by (simp add: returned_def stepHead_def)
next
  case (continue p1 tw p2)
  from fillOutPages_extends [OF continue(5)] obtain evs4 where
    "trace w' = (trace w @ stepHead env context task p1 @ map InTask (trace tw)
            @ stepTail context True) @ evs4"
    by auto
  with assms(2) have "evs = stepHead env context task p1 @ map InTask (trace tw)
            @ stepTail context True @ evs4"
    by simp
  with continue(1) show ?thesis by (simp add: returned_def stepHead_def)
qed

section \<open>The shape of a flow\<close>

lemma eventsOfI: "m w = (r, w') \<Longrightarrow> trace w' = trace w @ evs \<Longrightarrow> eventsOf m w = evs"
  by (simp add: eventsOf_def)

lemma fillOutFlow_cases [consumes 1, case_names bootThrew returned threw]:
  assumes v: "vals opts = Some v"
  obtains
    (bootThrew) e bevs where
      "outcome (bootstrap env opts) w = Inl e"
      "outcome (fillOutFlow env opts pageTasks) w = Inl e"
      "eventsOf (fillOutFlow env opts pageTasks) w = bevs"
      "list_all bootEvent bevs"
  | (returned) w0 w1 levs fin where
      "bootstrap env opts w = (Inr (), w0)"
      "fillOutPages env \<lparr> options = opts, ctx_values = v \<rparr> (combinedSequence env pageTasks) w0 = (Inr (), w1)"
      "trace w1 = trace w0 @ levs"
      "eventsOf (fillOutFlow env opts pageTasks) w = bootEvents opts @ levs @ closeEvents opts @ fin"
      "list_all finalEvent fin"
  | (threw) e w0 w1 levs fin where
      "bootstrap env opts w = (Inr (), w0)"
      "fillOutPages env \<lparr> options = opts, ctx_values = v \<rparr> (combinedSequence env pageTasks) w0 = (Inl e, w1)"
      "trace w1 = trace w0 @ levs"
      "eventsOf (fillOutFlow env opts pageTasks) w = bootEvents opts @ levs @ fin"
      "list_all finalEvent fin"
      "outcome (fillOutFlow env opts pageTasks) w = Inr () \<longrightarrow> BrowserClose \<notin> set fin"
proof -
  obtain rb w0 where b: "bootstrap env opts w = (rb, w0)"
    by (cases "bootstrap env opts w")
  from bootstrap_events [OF b] obtain bevs where
    bevs: "trace w0 = trace w @ bevs" "list_all bootEvent bevs" "rb = Inr () \<longrightarrow> bevs = bootEvents opts"
    by blast
  show thesis
  proof (cases rb)
    case (Inl e)
    with b have f: "fillOutFlow env opts pageTasks w = (Inl e, w0)"
      using fillOutFlow_boot_threw [OF v] by simp
    show thesis
    proof (rule bootThrew)
      show "outcome (bootstrap env opts) w = Inl e" using b Inl by (simp add: outcome_def)
      show "outcome (fillOutFlow env opts pageTasks) w = Inl e" using f by (simp add: outcome_def)
      show "eventsOf (fillOutFlow env opts pageTasks) w = bevs"
        using f bevs(1) by (rule eventsOfI)
      show "list_all bootEvent bevs" by (rule bevs(2))
    qed
  next
    case (Inr u)
    with b have b': "bootstrap env opts w = (Inr (), w0)" by simp
    from bevs(1,3) Inr have t0: "trace w0 = trace w @ bootEvents opts" by simp
    obtain r w1 where run: "fillOutPages env \<lparr> options = opts, ctx_values = v \<rparr>
        (combinedSequence env pageTasks) w0 = (r, w1)"
      by (cases "fillOutPages env \<lparr> options = opts, ctx_values = v \<rparr>
        (combinedSequence env pageTasks) w0")
    from fillOutPages_extends [OF run] obtain levs where levs: "trace w1 = trace w0 @ levs"
      by blast
    note ev = fillOutFlow_eval [OF v b' run]
    show thesis
    proof (cases r)
      case (Inl e)
      with ev have f: "fillOutFlow env opts pageTasks w = catchBlock env opts e w1" by simp
      obtain rc wc where c: "catchBlock env opts e w1 = (rc, wc)"
        by (cases "catchBlock env opts e w1")
      from catchBlock_events [OF c] obtain fin where
        fin: "trace wc = trace w1 @ fin" "list_all finalEvent fin" "rc = Inr () \<longrightarrow> BrowserClose \<notin> set fin"
        by blast
      show thesis
      proof (rule threw)
        show "bootstrap env opts w = (Inr (), w0)" by (rule b')
        show "fillOutPages env \<lparr> options = opts, ctx_values = v \<rparr>
            (combinedSequence env pageTasks) w0 = (Inl e, w1)"
          using run Inl by simp
        show "trace w1 = trace w0 @ levs" by (rule levs)
        show "eventsOf (fillOutFlow env opts pageTasks) w = bootEvents opts @ levs @ fin"
          using f c fin(1) levs t0 by (simp add: eventsOf_def)
        show "list_all finalEvent fin" by (rule fin(2))
        show "outcome (fillOutFlow env opts pageTasks) w = Inr () \<longrightarrow> BrowserClose \<notin> set fin"
          using f c fin(3) by (simp add: outcome_def)
      qed
    next
      case ok: (Inr u')
      obtain rc p2 where cl: "browser_close env (page w1) = (rc, p2)"
        by (cases "browser_close env (page w1)")
      let ?w2 = "\<lparr> page = p2, trace = trace w1 @ closeEvents opts \<rparr>"
      have cb: "closeBrowser env opts w1 = (rc, ?w2)"
        by (simp add: closeBrowser_eval cl)
      have "\<exists>fin. trace (snd (fillOutFlow env opts pageTasks w)) = trace w1 @ closeEvents opts @ fin
          \<and> list_all finalEvent fin"
      proof (cases rc)
        case (Inl e)
        with ev ok cb have f: "fillOutFlow env opts pageTasks w = catchBlock env opts e ?w2" by simp
        obtain rh wh where c: "catchBlock env opts e ?w2 = (rh, wh)"
          by (cases "catchBlock env opts e ?w2")
        from catchBlock_events [OF c] obtain fin where
          "trace wh = trace ?w2 @ fin" "list_all finalEvent fin"
          by blast
        with f c show ?thesis by simp
      next
        case (Inr u'')
        with ev ok cb have "fillOutFlow env opts pageTasks w = (Inr (), ?w2)" by simp
        then have "trace (snd (fillOutFlow env opts pageTasks w)) = trace w1 @ closeEvents opts @ []
            \<and> list_all finalEvent []"
          by simp
        then show ?thesis by blast
      qed
      then obtain fin where
        fin: "trace (snd (fillOutFlow env opts pageTasks w)) = trace w1 @ closeEvents opts @ fin"
          "list_all finalEvent fin"
        by blast
      show thesis
      proof (rule returned)
        show "bootstrap env opts w = (Inr (), w0)" by (rule b')
        show "fillOutPages env \<lparr> options = opts, ctx_values = v \<rparr>
            (combinedSequence env pageTasks) w0 = (Inr (), w1)"
          using run ok by simp
        show "trace w1 = trace w0 @ levs" by (rule levs)
        show "eventsOf (fillOutFlow env opts pageTasks) w = bootEvents opts @ levs @ closeEvents opts @ fin"
          using fin(1) levs t0 by (simp add: eventsOf_def)
        show "list_all finalEvent fin" by (rule fin(2))
      qed
    qed
  qed
qed


section \<open>The flow that \<^verbatim>\<open>onboard\<close> runs\<close>

lemma onboard_resolved:
  "onboard env fk opts =
     fillOutFlow env (resolvedOptions fk opts) (allFlows env (business_type (mergedValues fk (vals opts))))"
  by (simp add: onboard_def Let_def resolvedOptions_def)

lemma vals_resolved: "vals (resolvedOptions fk opts) = Some (mergedValues fk (vals opts))"
  by (simp add: resolvedOptions_def)

lemma names_combinedSequence:
  "map fst (combinedSequence env pageTasks) =
     [''fillOutGetPaidByPage'', ''fillOutVerificationCodePage'', ''fillOutTellUsAboutYourBusinessPage'']
       @ map fst pageTasks @ [''fillOutSummaryPage'']"
  by (simp add: combinedSequence_def)




lemma fillOutFlow_protocol:
  assumes "vals opts = Some v"
  shows "follows Idle (eventsOf (fillOutFlow env opts pageTasks) w) \<in> {Idle, Running, Stopped}
   \<and> prefix (started (eventsOf (fillOutFlow env opts pageTasks) w))
        (map fst (combinedSequence env pageTasks))"
  using assms
proof (cases rule: fillOutFlow_cases [where env = env and w = w and pageTasks = pageTasks])
  case (bootThrew e bevs)
  then show ?thesis by (simp add: bootEvents_follows bootEvents_started)
next
  case (returned w0 w1 levs fin)
  from fillOutPages_protocol [OF returned(2)] returned(3) have
    "follows Idle levs = Idle" "started levs = map fst (combinedSequence env pageTasks)"
    by auto
  moreover from returned(5) have "list_all finalEvent (closeEvents opts @ fin)"
    by (simp add: finalEvent_closeEvents)
  then have "follows Idle (closeEvents opts @ fin) = Idle" "started (closeEvents opts @ fin) = []"
    by (simp_all add: finalEvents_follows finalEvents_started del: follows_append started_append)
  ultimately show ?thesis
    using returned(4)
    by (simp add: bootEvents_follows bootEvents_started bootEvent_bootEvents)
next
  case (threw e w0 w1 levs fin)
  from fillOutPages_protocol [OF threw(2)] threw(3) have
    "follows Idle levs \<in> {Running, Stopped}"
    "prefix (started levs) (map fst (combinedSequence env pageTasks))"
    by auto
  then show ?thesis
    using threw(4,5)
    by (auto simp: bootEvents_follows bootEvents_started bootEvent_bootEvents finalEvents_follows
        finalEvents_started)
qed

lemma onboard_protocol:
  "follows Idle (eventsOf (onboard env fk opts) w) \<in> {Idle, Running, Stopped}
   \<and> prefix (started (eventsOf (onboard env fk opts) w))
        ([''fillOutGetPaidByPage'', ''fillOutVerificationCodePage'', ''fillOutTellUsAboutYourBusinessPage'']
          @ map fst (allFlows env (business_type (mergedValues fk (vals opts))))
          @ [''fillOutSummaryPage''])"
  using fillOutFlow_protocol [OF vals_resolved, of env fk opts
      "allFlows env (business_type (mergedValues fk (vals opts)))" w]
  by (simp add: onboard_resolved names_combinedSequence)



lemma fillOutFlow_first_wait:
  assumes "vals opts = Some v"
    and "outcome (bootstrap env opts) w = Inr ()"
  shows "\<exists>rest. eventsOf (fillOutFlow env opts pageTasks) w =
           bootEvents opts @ Spinner (getOraOptions opts ''Navigating...'')
             # WaitForNetworkIdle 3000
                 (returned (fst (waitForNetworkIdle env 3000 (page (snd (bootstrap env opts w)))))) # rest"
  using assms(1)
proof (cases rule: fillOutFlow_cases [where env = env and w = w and pageTasks = pageTasks])
  case (bootThrew e bevs)
  with assms(2) show ?thesis by simp
next
  case (returned w0 w1 levs fin)
  from returned(2) have "fillOutPages env \<lparr> options = opts, ctx_values = v \<rparr>
      ((''fillOutGetPaidByPage'', fillOutGetPaidByPage env) # tl (combinedSequence env pageTasks)) w0 = (Inr (), w1)"
    by (simp add: combinedSequence_def)
  from fillOutPages_first_wait [OF this returned(3)] returned(1,4) show ?thesis
    by auto
next
  case (threw e w0 w1 levs fin)
  from threw(2) have "fillOutPages env \<lparr> options = opts, ctx_values = v \<rparr>
      ((''fillOutGetPaidByPage'', fillOutGetPaidByPage env) # tl (combinedSequence env pageTasks)) w0 = (Inl e, w1)"
    by (simp add: combinedSequence_def)
  from fillOutPages_first_wait [OF this threw(3)] threw(1,4) show ?thesis
    by auto
qed


section \<open>The claims\<close>

subsection \<open>Early termination when the session has left the Stripe site\<close>

text \<open>
  C1 (the code departs from the claim). The claim: after the pre-step quiescence wait, if
  the session is no longer on the Stripe site the engine stops the remaining steps and the
  flow resolves without error. The loop tests \<^verbatim>\<open>!isOnStripePage(context)\<close> without \<open>await\<close>:
  the operand is a Promise, which is truthy, so the early \<^verbatim>\<open>return\<close> is never taken (the
  handler of \<^verbatim>\<open>fillOutFlow\<close> does await the same call). In the sample session that is off
  the Stripe site from the first wait on, the first step is started all the same; when no
  field filler throws there, every step of the sequence is started.
\<close>

theorem offsite_step_still_started:
  "onStripe (sampleEnv False [] (Some timeout))
       (snd (goto (sampleEnv False [] (Some timeout)) ''https://connect.stripe.com/setup/e/acct_1'' 0))
     = Inr False
   \<and> started (eventsOf (onboard (sampleEnv False [] (Some timeout)) sampleFaker (sampleOptions DebugUndefined)) blank)
       = [''fillOutGetPaidByPage'']
   \<and> started (eventsOf (onboard (sampleEnv False [] None) sampleFaker (sampleOptions DebugUndefined)) blank)
       = [''fillOutGetPaidByPage'', ''fillOutVerificationCodePage'',
          ''fillOutTellUsAboutYourBusinessPage'', ''fillOutCompanyPage'', ''fillOutSummaryPage'']"
  by code_simp

subsection \<open>Release of the browser session\<close>

text \<open>
  C2 (the code departs from the claim). The claim: on every exit path other than debug
  inspection the browser is closed exactly once. When a step throws and the session is off
  the Stripe site, the handler returns before it reaches \<^verbatim>\<open>closeBrowser\<close>: the flow
  resolves and the browser is never closed. With the early return of the loop out of reach
  (C1), this is the only way a flow that left the site ends.
\<close>

theorem suppressed_error_leaves_browser_open:
  "outcome (onboard (sampleEnv False [] (Some timeout)) sampleFaker (sampleOptions DebugUndefined)) blank = Inr ()
   \<and> count_list (eventsOf (onboard (sampleEnv False [] (Some timeout)) sampleFaker (sampleOptions DebugUndefined)) blank)
        BrowserClose = 0"
  by code_simp

subsection \<open>Validation errors\<close>

text \<open>
  C3, as stated, fails on the example it gives: for the single alert
  \<^verbatim>\<open>Phone number invalid\<close> the message is \<^verbatim>\<open>Validation errors found. Phone number invalid\<close>,
  without a final period, since \<^verbatim>\<open>join(". ")\<close> writes the separator between texts only.
\<close>

theorem single_alert_message_has_no_final_period:
  "outcome (onboard (sampleEnv True [''Phone number invalid''] None) sampleFaker (sampleOptions DebugUndefined)) blank
     = Inl (Error ''Validation errors found. Phone number invalid'')
   \<and> outcome (onboard (sampleEnv True [''Phone number invalid''] None) sampleFaker (sampleOptions DebugUndefined)) blank
     \<noteq> Inl (Error ''Validation errors found. Phone number invalid.'')"
  by code_simp

text \<open>
  C3 (amended). For every step: when its pre-step wait has resolved, its task has returned
  and the page then shows one or more alerts, the step sequence aborts at once with an
  \<open>Error\<close> whose message is \<^verbatim>\<open>Validation errors found. \<close> followed by the alert texts joined
  by \<^verbatim>\<open>. \<close>; the query of the alerts is the last call made, so neither the post-step wait
  nor any later step nor a retry takes place. A single alert \<^verbatim>\<open>Phone number invalid\<close> gives
  the message \<^verbatim>\<open>Validation errors found. Phone number invalid\<close>.
\<close>

theorem validation_errors_abort_the_sequence:
  assumes "waitForNetworkIdle env 3000 (page w) = (Inr (), p1)"
    and "snd task context \<lparr> page = p1, trace = [] \<rparr> = (Inr (), tw)"
    and "alerts env (page tw) \<noteq> []"
  shows "fillOutPages env context (task # pageTasks) w =
           (Inl (Error (''Validation errors found. '' @ join ''. '' (alerts env (page tw)))),
            \<lparr> page = page tw,
              trace = trace w @ stepHead env context task p1 @ map InTask (trace tw)
                        @ [QueryAlerts (alerts env (page tw))] \<rparr>)
         \<and> (alerts env (page tw) = [''Phone number invalid''] \<longrightarrow>
              outcome (fillOutPages env context (task # pageTasks)) w
                = Inl (Error ''Validation errors found. Phone number invalid''))"
proof -
  have "fillOutPages env context (task # pageTasks) w =
           (Inl (Error (''Validation errors found. '' @ join ''. '' (alerts env (page tw)))),
            \<lparr> page = page tw,
              trace = trace w @ stepHead env context task p1 @ map InTask (trace tw)
                        @ [QueryAlerts (alerts env (page tw))] \<rparr>)"
    using assms
    by (simp add: andThen_def oraPromise_def emit_def waitForNavigation_def perform_def
        returned_def ToBoolean_def inspect_def runTask_def stepHead_def throw_def)
  then show ?thesis by (simp add: outcome_def)
qed

theorem validation_errors_abort_the_sequence_witness:
  "outcome (fillOutPages (sampleEnv True [''Phone number invalid''] None) (sampleContext DebugUndefined)
      [(''fillOutVerificationCodePage'', fillOutVerificationCodePage (sampleEnv True [''Phone number invalid''] None)),
       (''fillOutSummaryPage'', fillOutSummaryPage (sampleEnv True [''Phone number invalid''] None))]) blank
   = Inl (Error ''Validation errors found. Phone number invalid'')"
proof -
  let ?env = "sampleEnv True [''Phone number invalid''] None"
  let ?task = "(''fillOutVerificationCodePage'', fillOutVerificationCodePage ?env)"
  let ?tw = "snd (snd ?task (sampleContext DebugUndefined) \<lparr> page = 0, trace = [] \<rparr>)"
  have 1: "waitForNetworkIdle ?env 3000 (page blank) = (Inr (), 0)"
    by (simp add: sampleEnv_def blank_def)
  have 2: "snd ?task (sampleContext DebugUndefined) \<lparr> page = 0, trace = [] \<rparr> = (Inr (), ?tw)"
    by code_simp
  have 3: "alerts ?env (page ?tw) \<noteq> []"
    by (simp add: sampleEnv_def)
  have 4: "alerts ?env (page ?tw) = [''Phone number invalid'']"
    by (simp add: sampleEnv_def)
  from validation_errors_abort_the_sequence [OF 1 2 3, of "[(''fillOutSummaryPage'', fillOutSummaryPage ?env)]"] 4
  show ?thesis by simp
qed

subsection \<open>The top-level handler\<close>

text \<open>
  C4, as stated, fails in debug mode: an error raised while the session is still on the
  Stripe site does not surface when the debug option is truthy.
\<close>

theorem debug_failure_is_not_surfaced:
  "outcome (fillOutPages (sampleEnv True [] (Some timeout)) (sampleContext (DebugBool True))
              (combinedSequence (sampleEnv True [] (Some timeout)) []))
           (snd (bootstrap (sampleEnv True [] (Some timeout)) (sampleResolved (DebugBool True)) blank))
     = Inl timeout
   \<and> onStripe (sampleEnv True [] (Some timeout))
        (page (snd (fillOutPages (sampleEnv True [] (Some timeout)) (sampleContext (DebugBool True))
                      (combinedSequence (sampleEnv True [] (Some timeout)) [])
                      (snd (bootstrap (sampleEnv True [] (Some timeout)) (sampleResolved (DebugBool True)) blank)))))
     = Inr True
   \<and> outcome (fillOutFlow (sampleEnv True [] (Some timeout)) (sampleResolved (DebugBool True)) []) blank
     = Inr ()"
  by code_simp

text \<open>
  C4 (amended). When the step sequence raises an error \<open>e\<close>, the flow ends as the handler
  decides, from the world \<open>w1\<close> the step sequence left. If the awaited site test finds the
  session off the Stripe site, the error is suppressed: the flow resolves and nothing more
  is done. Otherwise, if the debug option is truthy, an alert whose text begins with the
  text of \<open>e\<close> is injected into the page and the flow resolves without error. Otherwise
  the browser is closed and \<open>e\<close> surfaces to the caller. What the site test, the injection
  or the closing throws reaches the caller in place of \<open>e\<close>.
\<close>

theorem handler_outcome:
  assumes "vals opts = Some v"
    and "bootstrap env opts w = (Inr (), w0)"
    and "fillOutPages env \<lparr> options = opts, ctx_values = v \<rparr> (combinedSequence env pageTasks) w0
           = (Inl e, w1)"
  shows "fillOutFlow env opts pageTasks w =
           (case onStripe env (page w1) of
              Inl e' \<Rightarrow> (Inl e', w1)
            | Inr onSite \<Rightarrow>
                if \<not> onSite then (Inr (), w1)
                else if truthy (debug opts)
                then (case windowAlert env (debugText env opts e (page w1)) (page w1) of
                        (r, p') \<Rightarrow>
                          (r, \<lparr> page = p',
                                trace = trace w1 @ [WindowAlert (debugText env opts e (page w1))] \<rparr>))
                else (case browser_close env (page w1) of
                        (r, p') \<Rightarrow>
                          ((case r of Inl e' \<Rightarrow> Inl e' | Inr u \<Rightarrow> Inl e),
                           \<lparr> page = p',
                             trace = trace w1 @ [Spinner (getOraOptions opts ''Closing browser''),
                                                 BrowserClose] \<rparr>)))
         \<and> prefix (toString e) (debugText env opts e (page w1))"
  by (simp add: fillOutFlow_eval [OF assms] catchBlock_eval closeEvents_def debugText_def
      split: sum.split prod.split)

theorem handler_outcome_witness:
  "outcome (fillOutFlow (sampleEnv False [] (Some timeout)) (sampleResolved DebugUndefined) []) blank = Inr ()
   \<and> fillOutFlow (sampleEnv True [] (Some timeout)) (sampleResolved (DebugBool True)) [] blank =
       (Inr (),
        \<lparr> page = 0,
          trace = trace (snd (fillOutPages (sampleEnv True [] (Some timeout))
                     \<lparr> options = sampleResolved (DebugBool True),
                       ctx_values = mergedValues sampleFaker None \<rparr>
                     (combinedSequence (sampleEnv True [] (Some timeout)) [])
                     (snd (bootstrap (sampleEnv True [] (Some timeout)) (sampleResolved (DebugBool True)) blank))))
                  @ [WindowAlert (debugText (sampleEnv True [] (Some timeout)) (sampleResolved (DebugBool True))
                       timeout 0)] \<rparr>)"
proof -
  let ?env = "sampleEnv False [] (Some timeout)"
  let ?opts = "sampleResolved DebugUndefined"
  let ?w0 = "snd (bootstrap ?env ?opts blank)"
  let ?run = "fillOutPages ?env \<lparr> options = ?opts, ctx_values = mergedValues sampleFaker None \<rparr>
      (combinedSequence ?env []) ?w0"
  have v: "vals ?opts = Some (mergedValues sampleFaker None)"
    by (simp add: sampleResolved_def)
  have boot: "bootstrap ?env ?opts blank = (Inr (), ?w0)"
    by code_simp
  have run: "?run = (Inl timeout, snd ?run)"
    by code_simp
  have site: "onStripe ?env (page (snd ?run)) = Inr False"
    by (simp add: sampleEnv_def)
  from handler_outcome [OF v boot run] site
  have off: "outcome (fillOutFlow ?env ?opts []) blank = Inr ()"
    by (simp add: outcome_def)
  let ?envd = "sampleEnv True [] (Some timeout)"
  let ?optsd = "sampleResolved (DebugBool True)"
  let ?w0d = "snd (bootstrap ?envd ?optsd blank)"
  let ?rund = "fillOutPages ?envd \<lparr> options = ?optsd, ctx_values = mergedValues sampleFaker None \<rparr>
      (combinedSequence ?envd []) ?w0d"
  have vd: "vals ?optsd = Some (mergedValues sampleFaker None)"
    by (simp add: sampleResolved_def)
  have bootd: "bootstrap ?envd ?optsd blank = (Inr (), ?w0d)"
    by code_simp
  have rund: "?rund = (Inl timeout, snd ?rund)"
    by code_simp
  have paged: "page (snd ?rund) = 0"
    by code_simp
  have sited: "onStripe ?envd p = Inr True" "windowAlert ?envd msg p = (Inr (), p)" for p msg
    by (simp_all add: sampleEnv_def)
  have dbgd: "truthy (debug ?optsd)"
    by (simp add: sampleResolved_def)
  from handler_outcome [OF vd bootd rund]
  have on: "fillOutFlow ?envd ?optsd [] blank =
       (Inr (), \<lparr> page = 0, trace = trace (snd ?rund) @ [WindowAlert (debugText ?envd ?optsd timeout 0)] \<rparr>)"
    by (simp add: sited dbgd paged)
  from off on show ?thesis by (rule conjI)
qed

text \<open>
  C5 (the code departs from the claim). The claim: in debug mode the in-page alert holds the
  error text, the serialized debug payload, the serialized values, the current location
  and the build identifier; the browser stays open and nothing is rethrown. The text is
  built with \<^verbatim>\<open>getCurrentUrl(context.page)\<close> without \<open>await\<close>, so the Promise itself is
  concatenated: the alert reads \<^verbatim>\<open>url: [object Promise]\<close> whatever the location is. The rest
  of the claim holds in the sample session: the browser is not closed and the flow
  resolves.
\<close>

theorem debug_alert_lacks_location:
  "location_href (sampleEnv True [] (Some timeout))
     (page (snd (fillOutFlow (sampleEnv True [] (Some timeout)) (sampleResolved (DebugBool True)) [] blank)))
     = ''https://connect.stripe.com/setup/e/acct_1''
   \<and> last (trace (snd (fillOutFlow (sampleEnv True [] (Some timeout)) (sampleResolved (DebugBool True)) [] blank)))
     = WindowAlert (''TimeoutError: Waiting for selector failed'' @ newline
         @ ''debug: true'' @ newline
         @ ''values: {...}'' @ newline
         @ ''url: [object Promise]'' @ newline
         @ ''1.0.0'')
   \<and> BrowserClose \<notin> set (trace (snd (fillOutFlow (sampleEnv True [] (Some timeout)) (sampleResolved (DebugBool True)) [] blank)))
   \<and> outcome (fillOutFlow (sampleEnv True [] (Some timeout)) (sampleResolved (DebugBool True)) []) blank = Inr ()"
  by code_simp

text \<open>
  C6, as stated, fails when closing the browser throws: with the debug option falsy and the
  session on the Stripe site, the first step throws a \<open>TimeoutError\<close>, \<^verbatim>\<open>browser.close\<close>
  rejects, and the caller receives the error of the close, not the original one.
\<close>

theorem close_failure_replaces_the_error:
  "outcome (fillOutPages lostEnv (sampleContext DebugUndefined) (combinedSequence lostEnv []))
           (snd (bootstrap lostEnv (sampleResolved DebugUndefined) blank))
     = Inl timeout
   \<and> onStripe lostEnv
        (page (snd (fillOutPages lostEnv (sampleContext DebugUndefined) (combinedSequence lostEnv [])
                      (snd (bootstrap lostEnv (sampleResolved DebugUndefined) blank)))))
     = Inr True
   \<and> \<not> truthy (debug (sampleResolved DebugUndefined))
   \<and> outcome (fillOutFlow lostEnv (sampleResolved DebugUndefined) []) blank = Inl targetClosed
   \<and> outcome (fillOutFlow lostEnv (sampleResolved DebugUndefined) []) blank \<noteq> Inl timeout"
  by code_simp

text \<open>
  C6 (amended). When the debug option is falsy and the step sequence raises an error \<open>e\<close>
  while the session is on the Stripe site, the engine calls \<^verbatim>\<open>closeBrowser\<close> and then, when
  the closing has returned, raises \<open>e\<close> itself to the caller, unchanged; when the closing
  throws, its error reaches the caller instead. Either way the calls of \<^verbatim>\<open>closeBrowser\<close>
  are the last of the flow.
\<close>

theorem nondebug_failure_closes_and_rethrows:
  assumes "vals opts = Some v"
    and "bootstrap env opts w = (Inr (), w0)"
    and "fillOutPages env \<lparr> options = opts, ctx_values = v \<rparr> (combinedSequence env pageTasks) w0
           = (Inl e, w1)"
    and "onStripe env (page w1) = Inr True"
    and "\<not> truthy (debug opts)"
  shows "fillOutFlow env opts pageTasks w =
           (case browser_close env (page w1) of
              (r, p') \<Rightarrow>
                ((case r of Inl e' \<Rightarrow> Inl e' | Inr u \<Rightarrow> Inl e),
                 \<lparr> page = p',
                   trace = trace w1 @ [Spinner (getOraOptions opts ''Closing browser''), BrowserClose] \<rparr>))"
  using assms(4,5) by (simp add: fillOutFlow_eval [OF assms(1,2,3)] catchBlock_eval closeEvents_def)

theorem nondebug_failure_closes_and_rethrows_witness:
  "outcome (fillOutFlow (sampleEnv True [] (Some timeout)) (sampleResolved DebugUndefined) []) blank = Inl timeout
   \<and> last (trace (snd (fillOutFlow (sampleEnv True [] (Some timeout)) (sampleResolved DebugUndefined) [] blank)))
       = BrowserClose"
proof -
  let ?env = "sampleEnv True [] (Some timeout)"
  let ?opts = "sampleResolved DebugUndefined"
  let ?w0 = "snd (bootstrap ?env ?opts blank)"
  let ?run = "fillOutPages ?env \<lparr> options = ?opts, ctx_values = mergedValues sampleFaker None \<rparr>
      (combinedSequence ?env []) ?w0"
  have v: "vals ?opts = Some (mergedValues sampleFaker None)"
    by (simp add: sampleResolved_def)
  have boot: "bootstrap ?env ?opts blank = (Inr (), ?w0)"
    by code_simp
  have run: "?run = (Inl timeout, snd ?run)"
    by code_simp
  have site: "onStripe ?env (page (snd ?run)) = Inr True"
    by (simp add: sampleEnv_def)
  have dbg: "\<not> truthy (debug ?opts)"
    by (simp add: sampleResolved_def)
  have cl: "browser_close ?env (page (snd ?run)) = (Inr (), page (snd ?run))"
    by (simp add: sampleEnv_def)
  from nondebug_failure_closes_and_rethrows [OF v boot run site dbg] cl
  show ?thesis by (simp add: outcome_def)
qed

subsection \<open>Order of the steps and the waits around them\<close>



text \<open>
  C9, as stated, fails for a step that throws: in the sample session whose second step
  fails, \<open>fillOutVerificationCodePage\<close> is started and no quiescence wait follows it; the
  calls after its start are the failed field filler and the closing of the browser.
\<close>

theorem failed_step_is_not_followed_by_a_wait:
  "drop 21 (eventsOf (onboard stalledEnv sampleFaker (sampleOptions DebugUndefined)) blank) =
     [RunTask ''fillOutVerificationCodePage'',
      InTask (FillOutVerificationCode False),
      Spinner (getOraOptions (sampleResolved DebugUndefined) ''Closing browser''),
      BrowserClose]"
  by code_simp

text \<open>
  C9 (amended). Every quiescence wait of a flow is requested with an idle time of 3000 ms.
  Every step that is started is preceded by such a wait that resolved, with only the
  heading capture and the progress labels between the wait and the start; every step
  whose validation check found no alert is followed by such a wait, with only the progress
  label between the check and the wait. The engine does make these waits: once the
  bootstrap has returned, the first call of the flow is the wait; each step of the
  sequence begins with the wait and does not start its task when the wait throws; a step
  whose task returned and whose check found no alert requests the wait again, on the page
  the task left, before the rest of the sequence. A step whose task throws ends the
  sequence with no wait after it.
\<close>

theorem every_step_is_wrapped_in_quiescence_waits:
  "(\<forall>n ok. WaitForNetworkIdle n ok \<in> set (eventsOf (onboard env fk opts) w) \<longrightarrow> n = 3000)
   \<and> (\<forall>xs a zs.
         eventsOf (onboard env fk opts) w = xs @ RunTask a # zs \<longrightarrow>
         (\<exists>us vs. xs = us @ WaitForNetworkIdle 3000 True # vs \<and> (\<forall>e\<in>set vs. label e)))
   \<and> (\<forall>xs zs.
         eventsOf (onboard env fk opts) w = xs @ QueryAlerts [] # zs \<longrightarrow>
         (\<exists>sps ok zs'. zs = sps @ WaitForNetworkIdle 3000 ok # zs' \<and> (\<forall>e\<in>set sps. spinner e)))
   \<and> (outcome (bootstrap env (resolvedOptions fk opts)) w = Inr () \<longrightarrow>
        (\<exists>rest. eventsOf (onboard env fk opts) w =
           bootEvents (resolvedOptions fk opts)
           @ Spinner (getOraOptions (resolvedOptions fk opts) ''Navigating...'')
             # WaitForNetworkIdle 3000
                 (returned (fst (waitForNetworkIdle env 3000
                    (page (snd (bootstrap env (resolvedOptions fk opts) w)))))) # rest))
   \<and> (\<exists>rest. eventsOf (fillOutPages env ctxt (task # pageTasks)) s =
          Spinner (getOraOptions (options ctxt) ''Navigating...'')
          # WaitForNetworkIdle 3000 (returned (fst (waitForNetworkIdle env 3000 (page s)))) # rest)
   \<and> (waitForNetworkIdle env 3000 (page s) = (Inl e, p1) \<longrightarrow>
        fillOutPages env ctxt (task # pageTasks) s =
          (Inl e, \<lparr> page = p1,
                    trace = trace s @ [Spinner (getOraOptions (options ctxt) ''Navigating...''),
                                       WaitForNetworkIdle 3000 False] \<rparr>))
   \<and> (waitForNetworkIdle env 3000 (page s) = (Inr (), p1) \<longrightarrow>
      snd task ctxt \<lparr> page = p1, trace = [] \<rparr> = (Inl e, tw) \<longrightarrow>
        fillOutPages env ctxt (task # pageTasks) s =
          (Inl e, \<lparr> page = page tw,
                    trace = trace s @ stepHead env ctxt task p1 @ map InTask (trace tw) \<rparr>))
   \<and> (waitForNetworkIdle env 3000 (page s) = (Inr (), p1) \<longrightarrow>
      snd task ctxt \<lparr> page = p1, trace = [] \<rparr> = (Inr (), tw) \<longrightarrow>
      alerts env (page tw) = [] \<longrightarrow>
        fillOutPages env ctxt (task # pageTasks) s =
          (case waitForNetworkIdle env 3000 (page tw) of
             (Inl e', p2) \<Rightarrow>
               (Inl e', \<lparr> page = p2,
                          trace = trace s @ stepHead env ctxt task p1 @ map InTask (trace tw)
                                    @ stepTail ctxt False \<rparr>)
           | (Inr u, p2) \<Rightarrow>
               fillOutPages env ctxt pageTasks
                 \<lparr> page = p2,
                   trace = trace s @ stepHead env ctxt task p1 @ map InTask (trace tw)
                             @ stepTail ctxt True \<rparr>))"
proof -
  note defs = andThen_def oraPromise_def emit_def waitForNavigation_def perform_def
    returned_def ToBoolean_def inspect_def runTask_def stepHead_def stepTail_def throw_def
  from onboard_protocol [of env fk opts w]
  have fin: "follows Idle (eventsOf (onboard env fk opts) w) \<in> {Idle, Running, Stopped}" by blast
  then have ok: "follows Idle (eventsOf (onboard env fk opts) w) \<noteq> Broken" by auto
  have 1: "\<forall>n ok. WaitForNetworkIdle n ok \<in> set (eventsOf (onboard env fk opts) w) \<longrightarrow> n = 3000"
    using waits_3000 [OF ok] by blast
  have 2: "\<forall>xs a zs.
         eventsOf (onboard env fk opts) w = xs @ RunTask a # zs \<longrightarrow>
         (\<exists>us vs. xs = us @ WaitForNetworkIdle 3000 True # vs \<and> (\<forall>e\<in>set vs. label e))"
  proof (intro allI impI)
    fix xs a zs
    assume "eventsOf (onboard env fk opts) w = xs @ RunTask a # zs"
    with ok have "follows Idle (xs @ RunTask a # zs) \<noteq> Broken" by simp
    then show "\<exists>us vs. xs = us @ WaitForNetworkIdle 3000 True # vs \<and> (\<forall>e\<in>set vs. label e)"
      by (rule wait_before_step)
  qed
  have 3: "\<forall>xs zs.
         eventsOf (onboard env fk opts) w = xs @ QueryAlerts [] # zs \<longrightarrow>
         (\<exists>sps ok zs'. zs = sps @ WaitForNetworkIdle 3000 ok # zs' \<and> (\<forall>e\<in>set sps. spinner e))"
  proof (intro allI impI)
    fix xs zs
    assume "eventsOf (onboard env fk opts) w = xs @ QueryAlerts [] # zs"
    with fin have "follows Idle (xs @ QueryAlerts [] # zs) \<in> {Idle, Running, Stopped}" by simp
    then show "\<exists>sps ok zs'. zs = sps @ WaitForNetworkIdle 3000 ok # zs' \<and> (\<forall>e\<in>set sps. spinner e)"
      by (rule wait_after_step)
  qed
  have 4: "outcome (bootstrap env (resolvedOptions fk opts)) w = Inr () \<longrightarrow>
        (\<exists>rest. eventsOf (onboard env fk opts) w =
           bootEvents (resolvedOptions fk opts)
           @ Spinner (getOraOptions (resolvedOptions fk opts) ''Navigating...'')
             # WaitForNetworkIdle 3000
                 (returned (fst (waitForNetworkIdle env 3000
                    (page (snd (bootstrap env (resolvedOptions fk opts) w)))))) # rest)"
    using fillOutFlow_first_wait [OF vals_resolved, of env fk opts w
        "allFlows env (business_type (mergedValues fk (vals opts)))"]
    by (simp add: onboard_resolved)
  have 5: "\<exists>rest. eventsOf (fillOutPages env ctxt (task # pageTasks)) s =
          Spinner (getOraOptions (options ctxt) ''Navigating...'')
          # WaitForNetworkIdle 3000 (returned (fst (waitForNetworkIdle env 3000 (page s)))) # rest"
  proof -
    obtain r s' where run: "fillOutPages env ctxt (task # pageTasks) s = (r, s')"
      by (cases "fillOutPages env ctxt (task # pageTasks) s")
    from fillOutPages_extends [OF run] obtain evs where evs: "trace s' = trace s @ evs" by blast
    from run evs have "eventsOf (fillOutPages env ctxt (task # pageTasks)) s = evs"
      by (simp add: eventsOf_def)
    with fillOutPages_first_wait [OF run evs] show ?thesis by simp
  qed
  have 6: "waitForNetworkIdle env 3000 (page s) = (Inl e, p1) \<longrightarrow>
        fillOutPages env ctxt (task # pageTasks) s =
          (Inl e, \<lparr> page = p1,
                    trace = trace s @ [Spinner (getOraOptions (options ctxt) ''Navigating...''),
                                       WaitForNetworkIdle 3000 False] \<rparr>)"
    by (simp add: defs)
  have 7: "waitForNetworkIdle env 3000 (page s) = (Inr (), p1) \<longrightarrow>
      snd task ctxt \<lparr> page = p1, trace = [] \<rparr> = (Inl e, tw) \<longrightarrow>
        fillOutPages env ctxt (task # pageTasks) s =
          (Inl e, \<lparr> page = page tw,
                    trace = trace s @ stepHead env ctxt task p1 @ map InTask (trace tw) \<rparr>)"
    by (simp add: defs)
  have 8: "waitForNetworkIdle env 3000 (page s) = (Inr (), p1) \<longrightarrow>
      snd task ctxt \<lparr> page = p1, trace = [] \<rparr> = (Inr (), tw) \<longrightarrow>
      alerts env (page tw) = [] \<longrightarrow>
        fillOutPages env ctxt (task # pageTasks) s =
          (case waitForNetworkIdle env 3000 (page tw) of
             (Inl e', p2) \<Rightarrow>
               (Inl e', \<lparr> page = p2,
                          trace = trace s @ stepHead env ctxt task p1 @ map InTask (trace tw)
                                    @ stepTail ctxt False \<rparr>)
           | (Inr u, p2) \<Rightarrow>
               fillOutPages env ctxt pageTasks
                 \<lparr> page = p2,
                   trace = trace s @ stepHead env ctxt task p1 @ map InTask (trace tw)
                             @ stepTail ctxt True \<rparr>)"
    by (simp add: defs split: prod.split sum.split)
  from 1 2 3 4 5 6 7 8 show ?thesis by (intro conjI)
qed

theorem every_step_is_wrapped_in_quiescence_waits_witness:
  "(\<exists>us vs.
      bootEvents (sampleResolved DebugUndefined)
      @ [Spinner (getOraOptions (sampleResolved DebugUndefined) ''Navigating...''),
         WaitForNetworkIdle 3000 True,
         QueryHeading (Some '' Get paid ''),
         Spinner (getOraOptions (sampleResolved DebugUndefined) ''Get paid'')]
        = us @ WaitForNetworkIdle 3000 True # vs)
   \<and> (\<exists>sps ok zs'.
        [Spinner (getOraOptions (sampleResolved DebugUndefined) ''Submitting...''),
         WaitForNetworkIdle 3000 True,
         Spinner (getOraOptions (sampleResolved DebugUndefined) ''Navigating...''),
         WaitForNetworkIdle 3000 True,
         QueryHeading (Some '' Get paid ''),
         Spinner (getOraOptions (sampleResolved DebugUndefined) ''Get paid''),
         RunTask ''fillOutVerificationCodePage'',
         InTask (FillOutVerificationCode False),
         Spinner (getOraOptions (sampleResolved DebugUndefined) ''Closing browser''),
         BrowserClose]
        = sps @ WaitForNetworkIdle 3000 ok # zs')
   \<and> WaitForNetworkIdle 3000 True
        \<in> set (eventsOf (onboard stalledEnv sampleFaker (sampleOptions DebugUndefined)) blank)
   \<and> (\<exists>rest. eventsOf (onboard stalledEnv sampleFaker (sampleOptions DebugUndefined)) blank =
         bootEvents (sampleResolved DebugUndefined)
         @ Spinner (getOraOptions (sampleResolved DebugUndefined) ''Navigating...'')
           # WaitForNetworkIdle 3000 True # rest)
   \<and> fillOutPages busyEnv (sampleContext DebugUndefined)
         [(''fillOutVerificationCodePage'', fillOutVerificationCodePage busyEnv)] blank =
       (Inl timeout,
        \<lparr> page = 0,
          trace = [Spinner (getOraOptions (sampleResolved DebugUndefined) ''Navigating...''),
                   WaitForNetworkIdle 3000 False] \<rparr>)
   \<and> outcome (fillOutPages stalledEnv (sampleContext DebugUndefined)
         [(''fillOutVerificationCodePage'', fillOutVerificationCodePage stalledEnv)]) blank = Inl timeout
   \<and> outcome (fillOutPages (sampleEnv True [] None) (sampleContext DebugUndefined)
         [(''fillOutVerificationCodePage'', fillOutVerificationCodePage (sampleEnv True [] None))]) blank
       = Inr ()"
proof -
  let ?evs = "eventsOf (onboard stalledEnv sampleFaker (sampleOptions DebugUndefined)) blank"
  let ?xs = "bootEvents (sampleResolved DebugUndefined)
      @ [Spinner (getOraOptions (sampleResolved DebugUndefined) ''Navigating...''),
         WaitForNetworkIdle 3000 True,
         QueryHeading (Some '' Get paid ''),
         Spinner (getOraOptions (sampleResolved DebugUndefined) ''Get paid'')]"
  let ?ys = "[InTask (FillOutEmail True), InTask (FillOutPhoneNumber ''personal'' True),
          InTask (ClickSubmitButton None True)]"
  let ?zs = "[Spinner (getOraOptions (sampleResolved DebugUndefined) ''Submitting...''),
         WaitForNetworkIdle 3000 True,
         Spinner (getOraOptions (sampleResolved DebugUndefined) ''Navigating...''),
         WaitForNetworkIdle 3000 True,
         QueryHeading (Some '' Get paid ''),
         Spinner (getOraOptions (sampleResolved DebugUndefined) ''Get paid''),
         RunTask ''fillOutVerificationCodePage'',
         InTask (FillOutVerificationCode False),
         Spinner (getOraOptions (sampleResolved DebugUndefined) ''Closing browser''),
         BrowserClose]"
  have split: "?evs = ?xs @ RunTask ''fillOutGetPaidByPage'' # ?ys @ QueryAlerts [] # ?zs"
    by code_simp
  note inst = every_step_is_wrapped_in_quiescence_waits
    [where env = stalledEnv and fk = sampleFaker and opts = "sampleOptions DebugUndefined" and w = blank]
  have mem: "WaitForNetworkIdle 3000 True \<in> set ?evs"
    unfolding split by simp
  from inst have "\<forall>n ok. WaitForNetworkIdle n ok \<in> set ?evs \<longrightarrow> n = 3000"
    by (rule conjunct1)
  with mem have "(3000::nat) = 3000" by blast
  from inst have "\<forall>xs a zs. ?evs = xs @ RunTask a # zs \<longrightarrow>
         (\<exists>us vs. xs = us @ WaitForNetworkIdle 3000 True # vs \<and> (\<forall>e\<in>set vs. label e))"
    by (rule conjunct1 [OF conjunct2])
  then have "?evs = ?xs @ RunTask ''fillOutGetPaidByPage'' # (?ys @ QueryAlerts [] # ?zs) \<longrightarrow>
         (\<exists>us vs. ?xs = us @ WaitForNetworkIdle 3000 True # vs \<and> (\<forall>e\<in>set vs. label e))"
    by (elim allE)
  with split have a: "\<exists>us vs. ?xs = us @ WaitForNetworkIdle 3000 True # vs \<and> (\<forall>e\<in>set vs. label e)"
    by (rule rev_mp)
  from inst have "\<forall>xs zs. ?evs = xs @ QueryAlerts [] # zs \<longrightarrow>
         (\<exists>sps ok zs'. zs = sps @ WaitForNetworkIdle 3000 ok # zs' \<and> (\<forall>e\<in>set sps. spinner e))"
    by (rule conjunct1 [OF conjunct2 [OF conjunct2]])
  then have "?evs = (?xs @ RunTask ''fillOutGetPaidByPage'' # ?ys) @ QueryAlerts [] # ?zs \<longrightarrow>
         (\<exists>sps ok zs'. ?zs = sps @ WaitForNetworkIdle 3000 ok # zs' \<and> (\<forall>e\<in>set sps. spinner e))"
    by (elim allE)
  moreover from split have "?evs = (?xs @ RunTask ''fillOutGetPaidByPage'' # ?ys) @ QueryAlerts [] # ?zs"
    by (simp only: append_assoc append.simps)
  ultimately have b: "\<exists>sps ok zs'. ?zs = sps @ WaitForNetworkIdle 3000 ok # zs' \<and> (\<forall>e\<in>set sps. spinner e)"
    by (rule mp)
  from a have a': "\<exists>us vs. ?xs = us @ WaitForNetworkIdle 3000 True # vs" by blast
  from b have b': "\<exists>sps ok zs'. ?zs = sps @ WaitForNetworkIdle 3000 ok # zs'" by blast
  have boot: "outcome (bootstrap stalledEnv (resolvedOptions sampleFaker (sampleOptions DebugUndefined))) blank = Inr ()"
    by code_simp
  have ro: "resolvedOptions sampleFaker (sampleOptions DebugUndefined) = sampleResolved DebugUndefined"
    by (simp add: resolvedOptions_def sampleOptions_def sampleResolved_def)
  have firstwait: "returned (fst (waitForNetworkIdle stalledEnv 3000
      (page (snd (bootstrap stalledEnv (sampleResolved DebugUndefined) blank)))))"
    by (simp add: stalledEnv_def sampleEnv_def returned_def)
  from inst have "outcome (bootstrap stalledEnv (resolvedOptions sampleFaker (sampleOptions DebugUndefined))) blank = Inr () \<longrightarrow>
        (\<exists>rest. ?evs =
           bootEvents (resolvedOptions sampleFaker (sampleOptions DebugUndefined))
           @ Spinner (getOraOptions (resolvedOptions sampleFaker (sampleOptions DebugUndefined)) ''Navigating...'')
             # WaitForNetworkIdle 3000
                 (returned (fst (waitForNetworkIdle stalledEnv 3000
                    (page (snd (bootstrap stalledEnv (resolvedOptions sampleFaker (sampleOptions DebugUndefined)) blank)))))) # rest)"
    by (rule conjunct1 [OF conjunct2 [OF conjunct2 [OF conjunct2]]])
  with boot have "\<exists>rest. ?evs =
           bootEvents (resolvedOptions sampleFaker (sampleOptions DebugUndefined))
           @ Spinner (getOraOptions (resolvedOptions sampleFaker (sampleOptions DebugUndefined)) ''Navigating...'')
             # WaitForNetworkIdle 3000
                 (returned (fst (waitForNetworkIdle stalledEnv 3000
                    (page (snd (bootstrap stalledEnv (resolvedOptions sampleFaker (sampleOptions DebugUndefined)) blank)))))) # rest"
    by (rule rev_mp)
  then have c: "\<exists>rest. ?evs = bootEvents (sampleResolved DebugUndefined)
         @ Spinner (getOraOptions (sampleResolved DebugUndefined) ''Navigating...'')
           # WaitForNetworkIdle 3000 True # rest"
    by (simp only: ro firstwait)
  have ctx: "options (sampleContext DebugUndefined) = sampleResolved DebugUndefined"
    by (simp add: sampleContext_def)
  have w6: "waitForNetworkIdle busyEnv 3000 (page blank) = (Inl timeout, 0)"
    by (simp add: busyEnv_def sampleEnv_def blank_def)
  from every_step_is_wrapped_in_quiescence_waits
    [where env = busyEnv and ctxt = "sampleContext DebugUndefined"
       and task = "(''fillOutVerificationCodePage'', fillOutVerificationCodePage busyEnv)"
       and pageTasks = "[]" and s = blank and e = timeout and ?p1.0 = 0] w6
  have d: "fillOutPages busyEnv (sampleContext DebugUndefined)
         [(''fillOutVerificationCodePage'', fillOutVerificationCodePage busyEnv)] blank =
       (Inl timeout,
        \<lparr> page = 0,
          trace = [Spinner (getOraOptions (sampleResolved DebugUndefined) ''Navigating...''),
                   WaitForNetworkIdle 3000 False] \<rparr>)"
    by (simp add: ctx blank_def)
  let ?task7 = "(''fillOutVerificationCodePage'', fillOutVerificationCodePage stalledEnv)"
  let ?tw7 = "snd (snd ?task7 (sampleContext DebugUndefined) \<lparr> page = 0, trace = [] \<rparr>)"
  have w7: "waitForNetworkIdle stalledEnv 3000 (page blank) = (Inr (), 0)"
    by (simp add: stalledEnv_def sampleEnv_def blank_def)
  have t7: "snd ?task7 (sampleContext DebugUndefined) \<lparr> page = 0, trace = [] \<rparr> = (Inl timeout, ?tw7)"
    by code_simp
  from every_step_is_wrapped_in_quiescence_waits
    [where env = stalledEnv and ctxt = "sampleContext DebugUndefined"
       and task = ?task7 and pageTasks = "[]" and s = blank and e = timeout and ?p1.0 = 0 and tw = ?tw7]
    w7 t7
  have e7: "outcome (fillOutPages stalledEnv (sampleContext DebugUndefined) [?task7]) blank = Inl timeout"
    by (simp add: outcome_def)
  let ?env8 = "sampleEnv True [] None"
  let ?task8 = "(''fillOutVerificationCodePage'', fillOutVerificationCodePage ?env8)"
  let ?tw8 = "snd (snd ?task8 (sampleContext DebugUndefined) \<lparr> page = 0, trace = [] \<rparr>)"
  have w8: "waitForNetworkIdle ?env8 3000 (page blank) = (Inr (), 0)"
    by (simp add: sampleEnv_def blank_def)
  have t8: "snd ?task8 (sampleContext DebugUndefined) \<lparr> page = 0, trace = [] \<rparr> = (Inr (), ?tw8)"
    by code_simp
  have a8: "alerts ?env8 (page ?tw8) = []"
    by (simp add: sampleEnv_def)
  have p8: "waitForNetworkIdle ?env8 3000 p = (Inr (), p)" for p
    by (simp add: sampleEnv_def)
  note inst8 = every_step_is_wrapped_in_quiescence_waits
    [where env = ?env8 and ctxt = "sampleContext DebugUndefined"
       and task = ?task8 and pageTasks = "[]" and s = blank and ?p1.0 = 0 and tw = ?tw8]
  note last8 = inst8 [THEN conjunct2, THEN conjunct2, THEN conjunct2, THEN conjunct2,
      THEN conjunct2, THEN conjunct2, THEN conjunct2]
  have eq8: "fillOutPages ?env8 (sampleContext DebugUndefined) [?task8] blank =
          (case waitForNetworkIdle ?env8 3000 (page ?tw8) of
             (Inl e', p2) \<Rightarrow>
               (Inl e', \<lparr> page = p2,
                          trace = trace blank @ stepHead ?env8 (sampleContext DebugUndefined) ?task8 0
                                    @ map InTask (trace ?tw8)
                                    @ stepTail (sampleContext DebugUndefined) False \<rparr>)
           | (Inr u, p2) \<Rightarrow>
               fillOutPages ?env8 (sampleContext DebugUndefined) []
                 \<lparr> page = p2,
                   trace = trace blank @ stepHead ?env8 (sampleContext DebugUndefined) ?task8 0
                             @ map InTask (trace ?tw8)
                             @ stepTail (sampleContext DebugUndefined) True \<rparr>)"
    by (rule last8 [rule_format, OF w8 t8 a8])
  have e8: "outcome (fillOutPages ?env8 (sampleContext DebugUndefined) [?task8]) blank = Inr ()"
    unfolding outcome_def eq8 by (simp add: p8 resolve_def)
  from a' b' mem c d e7 e8 show ?thesis by (intro conjI)
qed

subsection \<open>The summary page\<close>

text \<open>
  C8. On the summary page: when status boxes are present the task throws at once, having
  done nothing but count them; otherwise it clicks the submit button
  \<^verbatim>\<open>requirements-index-done-button\<close> and, when that click returned, looks for the dialog's
  confirm button and clicks it once if it is there, and not at all if it is not.
\<close>

theorem summary_page:
  "(statusBoxes env (page w) > 0 \<longrightarrow>
      fillOutSummaryPage env context w =
        (Inl (Error ''Fields were missing in summary despite no errors during flow.''),
         \<lparr> page = page w, trace = trace w @ [QueryStatus (statusBoxes env (page w))] \<rparr>))
   \<and> (statusBoxes env (page w) = 0 \<longrightarrow>
      clickSubmitButton env context (Some ''requirements-index-done-button'') (page w) = (Inl e, p1) \<longrightarrow>
      fillOutSummaryPage env context w =
        (Inl e, \<lparr> page = p1, trace = trace w @
           [QueryStatus 0, ClickSubmitButton (Some ''requirements-index-done-button'') False] \<rparr>))
   \<and> (statusBoxes env (page w) = 0 \<longrightarrow>
      clickSubmitButton env context (Some ''requirements-index-done-button'') (page w) = (Inr (), p2) \<longrightarrow>
      fillOutSummaryPage env context w =
        (if dialogConfirmButton env p2
         then (fst (click env p2),
               \<lparr> page = snd (click env p2), trace = trace w @
                  [QueryStatus 0, ClickSubmitButton (Some ''requirements-index-done-button'') True,
                   QueryDialogButton True, ClickDialogButton (returned (fst (click env p2)))] \<rparr>)
         else (Inr (),
               \<lparr> page = p2, trace = trace w @
                  [QueryStatus 0, ClickSubmitButton (Some ''requirements-index-done-button'') True,
                   QueryDialogButton False] \<rparr>)))"
  by (simp add: fillOutSummaryPage_def andThen_def inspect_def perform_def throw_def resolve_def
      returned_def split: prod.split)

theorem summary_page_witness:
  "fillOutSummaryPage incompleteEnv (sampleContext DebugUndefined) summaryWorld =
     (Inl (Error ''Fields were missing in summary despite no errors during flow.''),
      \<lparr> page = 7, trace = [QueryStatus 2] \<rparr>)
   \<and> fillOutSummaryPage unclickableEnv (sampleContext DebugUndefined) summaryWorld =
     (Inl timeout,
      \<lparr> page = 7, trace = [QueryStatus 0, ClickSubmitButton (Some ''requirements-index-done-button'') False] \<rparr>)
   \<and> fillOutSummaryPage (sampleEnv True [] None) (sampleContext DebugUndefined) summaryWorld =
     (Inr (),
      \<lparr> page = 9, trace = [QueryStatus 0, ClickSubmitButton (Some ''requirements-index-done-button'') True,
                           QueryDialogButton True, ClickDialogButton True] \<rparr>)"
proof -
  have a: "statusBoxes incompleteEnv (page summaryWorld) > 0"
    by (simp add: incompleteEnv_def sampleEnv_def)
  have b: "statusBoxes unclickableEnv (page summaryWorld) = 0"
    "clickSubmitButton unclickableEnv (sampleContext DebugUndefined)
       (Some ''requirements-index-done-button'') (page summaryWorld) = (Inl timeout, 7)"
    by (simp_all add: unclickableEnv_def sampleEnv_def samplePrim_def summaryWorld_def)
  have c: "statusBoxes (sampleEnv True [] None) (page summaryWorld) = 0"
    "clickSubmitButton (sampleEnv True [] None) (sampleContext DebugUndefined)
       (Some ''requirements-index-done-button'') (page summaryWorld) = (Inr (), 8)"
    "dialogConfirmButton (sampleEnv True [] None) 8"
    "click (sampleEnv True [] None) 8 = (Inr (), 9)"
    by (simp_all add: sampleEnv_def samplePrim_def summaryWorld_def)
  from summary_page [of incompleteEnv summaryWorld "sampleContext DebugUndefined"] a
  have 1: "fillOutSummaryPage incompleteEnv (sampleContext DebugUndefined) summaryWorld =
     (Inl (Error ''Fields were missing in summary despite no errors during flow.''),
      \<lparr> page = 7, trace = [QueryStatus 2] \<rparr>)"
    by (simp add: incompleteEnv_def sampleEnv_def summaryWorld_def)
  from summary_page [of unclickableEnv summaryWorld "sampleContext DebugUndefined" timeout 7] b
  have 2: "fillOutSummaryPage unclickableEnv (sampleContext DebugUndefined) summaryWorld =
     (Inl timeout,
      \<lparr> page = 7, trace = [QueryStatus 0, ClickSubmitButton (Some ''requirements-index-done-button'') False] \<rparr>)"
    by (simp add: summaryWorld_def)
  from summary_page [of "sampleEnv True [] None" summaryWorld "sampleContext DebugUndefined" _ _ 8] c
  have 3: "fillOutSummaryPage (sampleEnv True [] None) (sampleContext DebugUndefined) summaryWorld =
     (Inr (),
      \<lparr> page = 9, trace = [QueryStatus 0, ClickSubmitButton (Some ''requirements-index-done-button'') True,
                           QueryDialogButton True, ClickDialogButton True] \<rparr>)"
    by (simp add: summaryWorld_def returned_def)
  from 1 2 3 show ?thesis by (intro conjI)
qed

subsection \<open>Default values\<close>

text \<open>
  C10. Whatever the country argument, the defaults have the country \<^verbatim>\<open>US\<close>. For \<^verbatim>\<open>DK\<close>
  they have no state and no routing number, and the Danish phone numbers, zip, city and
  account number; for any other argument (or none) they are the US defaults. In the
  values \<^verbatim>\<open>onboard\<close> works with, every property the caller gave has the caller's value and
  every other property has its default for the caller's country.
\<close>

theorem getDefaultOnboardValues_and_merge:
  fixes fk :: faker and c :: "string option" and g :: PartialOnboardValues
  defines "d \<equiv> getDefaultOnboardValues fk (given_country g)"
  defines "m \<equiv> mergedValues fk (Some g)"
  shows
  "country (getDefaultOnboardValues fk c) = ''US''
   \<and> getDefaultOnboardValues fk (Some ''DK'') =
       \<lparr> account_number = ''DK5000400440116243'',
         address = \<lparr> line1 = ''address_full_match'', line2 = Some [], city = ''Aarhus'',
                     state = None, zip = ''8000'' \<rparr>,
         business_type = company,
         company_name = company_name_draw fk,
         company_phone = ''00000000'',
         company_tax_id = ''000000000'',
         company_url = internet_url fk,
         date_of_birth = ''01011901'',
         country = ''US'',
         email = internet_exampleEmail fk (name_firstName fk) (name_lastName fk),
         first_name = name_firstName fk,
         id_number = ''000000000'',
         last_name = name_lastName fk,
         phone = ''00000000'',
         routing_number = None,
         ssn_last_4 = ''0000'',
         title = name_jobTitle fk \<rparr>
   \<and> (c \<noteq> Some ''DK'' \<longrightarrow>
        getDefaultOnboardValues fk c =
        \<lparr> account_number = ''000123456789'',
          address = \<lparr> line1 = ''address_full_match'', line2 = Some [], city = ''Beverly Hills'',
                      state = Some ''CA'', zip = ''90210'' \<rparr>,
          business_type = company,
          company_name = company_name_draw fk,
          company_phone = ''0000000000'',
          company_tax_id = ''000000000'',
          company_url = internet_url fk,
          date_of_birth = ''01011901'',
          country = ''US'',
          email = internet_exampleEmail fk (name_firstName fk) (name_lastName fk),
          first_name = name_firstName fk,
          id_number = ''000000000'',
          last_name = name_lastName fk,
          phone = ''0000000000'',
          routing_number = Some ''110000000'',
          ssn_last_4 = ''0000'',
          title = name_jobTitle fk \<rparr>)
   \<and> account_number m = (case given_account_number g of Some v \<Rightarrow> v | None \<Rightarrow> account_number d)
   \<and> address m = (case given_address g of Some v \<Rightarrow> v | None \<Rightarrow> address d)
   \<and> business_type m = (case given_business_type g of Some v \<Rightarrow> v | None \<Rightarrow> business_type d)
   \<and> company_name m = (case given_company_name g of Some v \<Rightarrow> v | None \<Rightarrow> company_name d)
   \<and> company_phone m = (case given_company_phone g of Some v \<Rightarrow> v | None \<Rightarrow> company_phone d)
   \<and> company_tax_id m = (case given_company_tax_id g of Some v \<Rightarrow> v | None \<Rightarrow> company_tax_id d)
   \<and> company_url m = (case given_company_url g of Some v \<Rightarrow> v | None \<Rightarrow> company_url d)
   \<and> date_of_birth m = (case given_date_of_birth g of Some v \<Rightarrow> v | None \<Rightarrow> date_of_birth d)
   \<and> country m = (case given_country g of Some v \<Rightarrow> v | None \<Rightarrow> country d)
   \<and> email m = (case given_email g of Some v \<Rightarrow> v | None \<Rightarrow> email d)
   \<and> first_name m = (case given_first_name g of Some v \<Rightarrow> v | None \<Rightarrow> first_name d)
   \<and> id_number m = (case given_id_number g of Some v \<Rightarrow> v | None \<Rightarrow> id_number d)
   \<and> last_name m = (case given_last_name g of Some v \<Rightarrow> v | None \<Rightarrow> last_name d)
   \<and> phone m = (case given_phone g of Some v \<Rightarrow> v | None \<Rightarrow> phone d)
   \<and> routing_number m = (case given_routing_number g of Some v \<Rightarrow> Some v | None \<Rightarrow> routing_number d)
   \<and> ssn_last_4 m = (case given_ssn_last_4 g of Some v \<Rightarrow> v | None \<Rightarrow> ssn_last_4 d)
   \<and> title m = (case given_title g of Some v \<Rightarrow> v | None \<Rightarrow> title d)
   \<and> mergedValues fk None = getDefaultOnboardValues fk None
   \<and> onboard env fk opts =
       fillOutFlow env
         \<lparr> headless = (if headless opts = None then Some True else headless opts),
           silent = (if silent opts = None then Some True else silent opts),
           vals = Some (mergedValues fk (vals opts)),
           url = url opts, debug = debug opts \<rparr>
         (allFlows env (business_type (mergedValues fk (vals opts))))"
proof -
  have c1: "country (getDefaultOnboardValues fk c) = ''US''"
    by (simp add: getDefaultOnboardValues_def Let_def)
  have c2: "getDefaultOnboardValues fk (Some ''DK'') = \<lparr> account_number = ''DK5000400440116243'',
         address = \<lparr> line1 = ''address_full_match'', line2 = Some [], city = ''Aarhus'',
                     state = None, zip = ''8000'' \<rparr>,
         business_type = company,
         company_name = company_name_draw fk,
         company_phone = ''00000000'',
         company_tax_id = ''000000000'',
         company_url = internet_url fk,
         date_of_birth = ''01011901'',
         country = ''US'',
         email = internet_exampleEmail fk (name_firstName fk) (name_lastName fk),
         first_name = name_firstName fk,
         id_number = ''000000000'',
         last_name = name_lastName fk,
         phone = ''00000000'',
         routing_number = None,
         ssn_last_4 = ''0000'',
         title = name_jobTitle fk \<rparr>"
    by (simp add: getDefaultOnboardValues_def Let_def)
  have c3: "c \<noteq> Some ''DK'' \<longrightarrow>
        getDefaultOnboardValues fk c =
        \<lparr> account_number = ''000123456789'',
          address = \<lparr> line1 = ''address_full_match'', line2 = Some [], city = ''Beverly Hills'',
                      state = Some ''CA'', zip = ''90210'' \<rparr>,
          business_type = company,
          company_name = company_name_draw fk,
          company_phone = ''0000000000'',
          company_tax_id = ''000000000'',
          company_url = internet_url fk,
          date_of_birth = ''01011901'',
          country = ''US'',
          email = internet_exampleEmail fk (name_firstName fk) (name_lastName fk),
          first_name = name_firstName fk,
          id_number = ''000000000'',
          last_name = name_lastName fk,
          phone = ''0000000000'',
          routing_number = Some ''110000000'',
          ssn_last_4 = ''0000'',
          title = name_jobTitle fk \<rparr>"
    by (cases c) (simp_all add: getDefaultOnboardValues_def Let_def)
  have m: "m = spread d g"
    by (simp add: m_def d_def mergedValues_def)
  have f: "account_number m = (case given_account_number g of Some v \<Rightarrow> v | None \<Rightarrow> account_number d)"
    "address m = (case given_address g of Some v \<Rightarrow> v | None \<Rightarrow> address d)"
    "business_type m = (case given_business_type g of Some v \<Rightarrow> v | None \<Rightarrow> business_type d)"
    "company_name m = (case given_company_name g of Some v \<Rightarrow> v | None \<Rightarrow> company_name d)"
    "company_phone m = (case given_company_phone g of Some v \<Rightarrow> v | None \<Rightarrow> company_phone d)"
    "company_tax_id m = (case given_company_tax_id g of Some v \<Rightarrow> v | None \<Rightarrow> company_tax_id d)"
    "company_url m = (case given_company_url g of Some v \<Rightarrow> v | None \<Rightarrow> company_url d)"
    "date_of_birth m = (case given_date_of_birth g of Some v \<Rightarrow> v | None \<Rightarrow> date_of_birth d)"
    "country m = (case given_country g of Some v \<Rightarrow> v | None \<Rightarrow> country d)"
    "email m = (case given_email g of Some v \<Rightarrow> v | None \<Rightarrow> email d)"
    "first_name m = (case given_first_name g of Some v \<Rightarrow> v | None \<Rightarrow> first_name d)"
    "id_number m = (case given_id_number g of Some v \<Rightarrow> v | None \<Rightarrow> id_number d)"
    "last_name m = (case given_last_name g of Some v \<Rightarrow> v | None \<Rightarrow> last_name d)"
    "phone m = (case given_phone g of Some v \<Rightarrow> v | None \<Rightarrow> phone d)"
    "routing_number m = (case given_routing_number g of Some v \<Rightarrow> Some v | None \<Rightarrow> routing_number d)"
    "ssn_last_4 m = (case given_ssn_last_4 g of Some v \<Rightarrow> v | None \<Rightarrow> ssn_last_4 d)"
    "title m = (case given_title g of Some v \<Rightarrow> v | None \<Rightarrow> title d)"
    by (simp_all add: m spread_def pick_def split: option.split)
  have c5: "mergedValues fk None = getDefaultOnboardValues fk None"
    by (simp add: mergedValues_def)
  have c4: "onboard env fk opts =
       fillOutFlow env
         \<lparr> headless = (if headless opts = None then Some True else headless opts),
           silent = (if silent opts = None then Some True else silent opts),
           vals = Some (mergedValues fk (vals opts)),
           url = url opts, debug = debug opts \<rparr>
         (allFlows env (business_type (mergedValues fk (vals opts))))"
    by (simp add: onboard_def Let_def)
  show ?thesis
    by (intro conjI c1 c2 c3 f c5 c4)
qed

theorem getDefaultOnboardValues_and_merge_witness:
  "state (address (getDefaultOnboardValues sampleFaker (Some ''SE''))) = Some ''CA''
   \<and> routing_number (getDefaultOnboardValues sampleFaker (Some ''SE'')) = Some ''110000000''
   \<and> phone (mergedValues sampleFaker (Some sampleGiven)) = ''12345678''
   \<and> company_phone (mergedValues sampleFaker (Some sampleGiven)) = ''00000000''
   \<and> country (mergedValues sampleFaker (Some sampleGiven)) = ''DK''
   \<and> business_type (mergedValues sampleFaker (Some sampleGiven)) = individual"
proof -
  have ne: "Some ''SE'' \<noteq> Some ''DK''" by simp
  note inst = getDefaultOnboardValues_and_merge
    [where fk = sampleFaker and c = "Some ''SE''" and g = sampleGiven]
  from inst ne have us: "getDefaultOnboardValues sampleFaker (Some ''SE'') =
        \<lparr> account_number = ''000123456789'',
          address = \<lparr> line1 = ''address_full_match'', line2 = Some [], city = ''Beverly Hills'',
                      state = Some ''CA'', zip = ''90210'' \<rparr>,
          business_type = company,
          company_name = company_name_draw sampleFaker,
          company_phone = ''0000000000'',
          company_tax_id = ''000000000'',
          company_url = internet_url sampleFaker,
          date_of_birth = ''01011901'',
          country = ''US'',
          email = internet_exampleEmail sampleFaker (name_firstName sampleFaker) (name_lastName sampleFaker),
          first_name = name_firstName sampleFaker,
          id_number = ''000000000'',
          last_name = name_lastName sampleFaker,
          phone = ''0000000000'',
          routing_number = Some ''110000000'',
          ssn_last_4 = ''0000'',
          title = name_jobTitle sampleFaker \<rparr>"
    by blast
  have dk: "given_country sampleGiven = Some ''DK''" "given_phone sampleGiven = Some ''12345678''"
    "given_company_phone sampleGiven = None" "given_business_type sampleGiven = Some individual"
    by (simp_all add: sampleGiven_def)
  from inst have "phone (mergedValues sampleFaker (Some sampleGiven)) =
      (case given_phone sampleGiven of Some v \<Rightarrow> v | None \<Rightarrow> phone (getDefaultOnboardValues sampleFaker (given_country sampleGiven)))"
    "company_phone (mergedValues sampleFaker (Some sampleGiven)) =
      (case given_company_phone sampleGiven of Some v \<Rightarrow> v | None \<Rightarrow> company_phone (getDefaultOnboardValues sampleFaker (given_country sampleGiven)))"
    "country (mergedValues sampleFaker (Some sampleGiven)) =
      (case given_country sampleGiven of Some v \<Rightarrow> v | None \<Rightarrow> country (getDefaultOnboardValues sampleFaker (given_country sampleGiven)))"
    "business_type (mergedValues sampleFaker (Some sampleGiven)) =
      (case given_business_type sampleGiven of Some v \<Rightarrow> v | None \<Rightarrow> business_type (getDefaultOnboardValues sampleFaker (given_country sampleGiven)))"
    "getDefaultOnboardValues sampleFaker (Some ''DK'') = \<lparr> account_number = ''DK5000400440116243'',
         address = \<lparr> line1 = ''address_full_match'', line2 = Some [], city = ''Aarhus'',
                     state = None, zip = ''8000'' \<rparr>,
         business_type = company,
         company_name = company_name_draw sampleFaker,
         company_phone = ''00000000'',
         company_tax_id = ''000000000'',
         company_url = internet_url sampleFaker,
         date_of_birth = ''01011901'',
         country = ''US'',
         email = internet_exampleEmail sampleFaker (name_firstName sampleFaker) (name_lastName sampleFaker),
         first_name = name_firstName sampleFaker,
         id_number = ''000000000'',
         last_name = name_lastName sampleFaker,
         phone = ''00000000'',
         routing_number = None,
         ssn_last_4 = ''0000'',
         title = name_jobTitle sampleFaker \<rparr>"
    by blast+
  then show ?thesis
    by (simp add: dk us)
qed

end
